theory Spec2Isabelle
  imports Complex_Main
begin

section \<open>Data model (src/types/index.ts)\<close>

text \<open>
  JavaScript numbers are modelled as exact reals: rounding of IEEE doubles is not part of
  the model. Timestamps read from \<open>Date.now()\<close> are integers (milliseconds).
  Fields that only feed log lines or the dashboard (conditionId, slug, endDate, entry and
  exit times, reason strings) are left out of the records.
\<close>

datatype Side = YES | NO

datatype Status = Open | Closed

datatype StrategyName = Arbitrage | Value | Whale | Momentum | Mean_reversion

datatype ConfidenceLevel = Low | Standard | High | ArbitrageConf

datatype MarketCategory =
  Politics | Sports | Crypto | Entertainment | Science | Business | Other

datatype Action = BUY | SELL

record Outcome =
  o_id :: string
  o_name :: string
  o_price :: real
  o_tokenId :: string

record Market =
  m_id :: string
  m_question :: string
  m_category :: MarketCategory
  m_outcomes :: "Outcome list"
  m_volume :: real
  m_liquidity :: real

record Position =
  p_id :: string
  p_marketId :: string
  p_marketQuestion :: string
  p_category :: MarketCategory
  p_strategy :: StrategyName
  p_side :: Side
  p_outcomeId :: string
  p_entryPrice :: real
  p_currentPrice :: real
  p_size :: real
  p_cost :: real
  p_shares :: real
  p_pnl :: real
  p_pnlPercent :: real
  p_status :: Status

record Trade =
  t_id :: string
  t_positionId :: string
  t_marketId :: string
  t_category :: MarketCategory
  t_strategy :: StrategyName
  t_side :: Side
  t_action :: Action
  t_price :: real
  t_size :: real
  t_shares :: real
  t_fees :: real
  t_pnl :: "real option"

record StrategyAllocation =
  a_strategy :: StrategyName
  a_currentWeight :: real
  a_minWeight :: real
  a_maxWeight :: real
  a_performanceScore :: real

record Opportunity =
  opp_market :: Market
  opp_strategy :: StrategyName
  opp_side :: Side
  opp_outcomeIndex :: nat
  opp_entryPrice :: real
  opp_estimatedProb :: real
  opp_edge :: real
  opp_confidence :: ConfidenceLevel

record Portfolio =
  pf_balance :: real
  pf_totalValue :: real
  pf_startingBalance :: real
  pf_totalPnl :: real
  pf_openPositions :: "Position list"
  pf_allocations :: "StrategyAllocation list"
  pf_drawdown :: real
  pf_drawdownPercent :: real
  pf_peakValue :: real

text \<open>The configuration values read by the engine (src/config/index.ts).\<close>

record Config =
  maxPositionPct :: real
  maxCategoryPct :: real
  minBufferPct :: real
  drawdownWarningPct :: real
  drawdownHaltPct :: real
  minPositionUsd :: real
  maxPositionUsd :: real
  minMarketLiquidity :: real

definition defaultConfig :: Config where
  "defaultConfig =
     \<lparr>maxPositionPct = 10 / 100, maxCategoryPct = 30 / 100, minBufferPct = 20 / 100,
      drawdownWarningPct = 15 / 100, drawdownHaltPct = 25 / 100,
      minPositionUsd = 10, maxPositionUsd = 5000, minMarketLiquidity = 10000\<rparr>"

section \<open>The ledger (SQLiteStore)\<close>

text \<open>
  A row of the \<open>positions\<close> table. The table is a list in insertion order; \<open>id\<close> is its
  primary key, so an insert with an id already present throws.
\<close>

record PositionRow =
  row_id :: string
  row_market_id :: string
  row_market_question :: string
  row_category :: MarketCategory
  row_strategy :: StrategyName
  row_side :: Side
  row_outcome_id :: string
  row_entry_price :: real
  row_current_price :: real
  row_size :: real
  row_cost :: real
  row_shares :: real
  row_exit_price :: "real option"
  row_pnl :: real
  row_status :: Status

record Snapshot =
  snap_balance :: real
  snap_total_value :: real
  snap_total_pnl :: real
  snap_drawdown :: real
  snap_peak_value :: real

text \<open>
  \<open>randomUUID()\<close> is an outside source of identifiers: the store carries a counter and
  an enumeration \<open>uuid\<close> of the identifiers that will be drawn, in order.
\<close>

record Store =
  positions :: "PositionRow list"
  trades :: "Trade list"
  snapshots :: "Snapshot list"
  allocations :: "StrategyAllocation list"
  uuid :: "nat \<Rightarrow> string"
  uuid_next :: nat

text \<open>
  What a call can throw. \<open>ConstraintError\<close>: an insert the database refuses.
  \<open>NonFinite\<close>: the source divided by zero, so that its numbers are \<open>Infinity\<close> or \<open>NaN\<close>
  from there on; the model stops the call at that point with this error instead of
  following values that are no reals. \<open>ExecutorNotInitialized\<close>: the real adapter's
  \<open>getPortfolio\<close> before \<open>initialize\<close>. \<open>TypeError\<close>: a property read on \<open>undefined\<close>.
\<close>

datatype error = ConstraintError | NonFinite | ExecutorNotInitialized | TypeError

definition randomUUID :: "Store \<Rightarrow> string \<times> Store" where
  "randomUUID st = (uuid st (uuid_next st), st\<lparr>uuid_next := Suc (uuid_next st)\<rparr>)"

text \<open>\<open>rowToPosition\<close>: cost falls back to size when the stored cost is falsy (0).\<close>

definition rowToPosition :: "PositionRow \<Rightarrow> Position" where
  "rowToPosition row =
     (let cost = (if row_cost row = 0 then row_size row else row_cost row);
          currentValue = row_current_price row * row_shares row;
          pnl = currentValue - cost;
          pnlPercent = (if cost > 0 then (pnl / cost) * 100 else 0)
      in \<lparr>p_id = row_id row, p_marketId = row_market_id row,
          p_marketQuestion = row_market_question row, p_category = row_category row,
          p_strategy = row_strategy row, p_side = row_side row,
          p_outcomeId = row_outcome_id row, p_entryPrice = row_entry_price row,
          p_currentPrice = row_current_price row, p_size = row_size row, p_cost = cost,
          p_shares = row_shares row, p_pnl = pnl, p_pnlPercent = pnlPercent,
          p_status = row_status row\<rparr>)"

definition findRow :: "Store \<Rightarrow> string \<Rightarrow> PositionRow option" where
  "findRow st i = find (\<lambda>r. row_id r = i) (positions st)"

definition getPosition :: "Store \<Rightarrow> string \<Rightarrow> Position option" where
  "getPosition st i = map_option rowToPosition (findRow st i)"

definition getOpenPositions :: "Store \<Rightarrow> Position list" where
  "getOpenPositions st = map rowToPosition (filter (\<lambda>r. row_status r = Open) (positions st))"

text \<open>
  The argument of \<open>createPosition\<close> is a Position without id, pnl, pnlPercent and status;
  here a whole record of which those four fields are ignored.
\<close>

definition createPosition :: "Store \<Rightarrow> Position \<Rightarrow> error + (Position \<times> Store)" where
  "createPosition st0 p =
     (let (i, st) = randomUUID st0 in
      if findRow st i \<noteq> None then Inl ConstraintError
      else
        Inr (p\<lparr>p_id := i, p_pnl := 0, p_pnlPercent := 0, p_status := Open\<rparr>,
             st\<lparr>positions := positions st @
               [\<lparr>row_id = i, row_market_id = p_marketId p,
                 row_market_question = p_marketQuestion p, row_category = p_category p,
                 row_strategy = p_strategy p, row_side = p_side p,
                 row_outcome_id = p_outcomeId p, row_entry_price = p_entryPrice p,
                 row_current_price = p_currentPrice p, row_size = p_size p,
                 row_cost = p_cost p, row_shares = p_shares p, row_exit_price = None,
                 row_pnl = 0, row_status = Open\<rparr>]\<rparr>))"

definition updateRows :: "string \<Rightarrow> (PositionRow \<Rightarrow> PositionRow) \<Rightarrow> Store \<Rightarrow> Store" where
  "updateRows i f st =
     st\<lparr>positions := map (\<lambda>r. if row_id r = i then f r else r) (positions st)\<rparr>"

definition updatePositionPrice :: "Store \<Rightarrow> string \<Rightarrow> real \<Rightarrow> Store" where
  "updatePositionPrice st i currentPrice =
     (case getPosition st i of
        None \<Rightarrow> st
      | Some position \<Rightarrow>
          (let currentValue = currentPrice * p_shares position;
               pnl = currentValue - p_cost position
           in updateRows i (\<lambda>r. r\<lparr>row_current_price := currentPrice, row_pnl := pnl\<rparr>) st))"

definition closePosition :: "Store \<Rightarrow> string \<Rightarrow> real \<Rightarrow> Position option \<times> Store" where
  "closePosition st i exitPrice =
     (case getPosition st i of
        None \<Rightarrow> (None, st)
      | Some position \<Rightarrow>
          (let exitValue = exitPrice * p_shares position;
               pnl = exitValue - p_cost position;
               st' = updateRows i (\<lambda>r. r\<lparr>row_status := Closed, row_exit_price := Some exitPrice,
                                          row_current_price := exitPrice, row_pnl := pnl\<rparr>) st
           in (getPosition st' i, st')))"

text \<open>\<open>recordTrade\<close> takes a Trade whose id is ignored; the trades table has \<open>id\<close> as key.\<close>

definition recordTrade :: "Store \<Rightarrow> Trade \<Rightarrow> error + (Trade \<times> Store)" where
  "recordTrade st0 t =
     (let (i, st) = randomUUID st0 in
      if find (\<lambda>x. t_id x = i) (trades st) \<noteq> None then Inl ConstraintError
      else Inr (t\<lparr>t_id := i\<rparr>, st\<lparr>trades := trades st @ [t\<lparr>t_id := i\<rparr>]\<rparr>))"

definition savePortfolioSnapshot :: "Store \<Rightarrow> Portfolio \<Rightarrow> Store" where
  "savePortfolioSnapshot st pf =
     st\<lparr>snapshots := snapshots st @
       [\<lparr>snap_balance = pf_balance pf, snap_total_value = pf_totalValue pf,
         snap_total_pnl = pf_totalPnl pf, snap_drawdown = pf_drawdown pf,
         snap_peak_value = pf_peakValue pf\<rparr>]\<rparr>"





section \<open>Arbitrage strategy (src/strategies/arbitrage.ts)\<close>

record ArbOutcome =
  ao_name :: string
  ao_price :: real
  ao_tokenId :: string

record ArbitrageOpportunity = Opportunity +
  arb_outcomes :: "ArbOutcome list"
  totalCost :: real
  guaranteedProfit :: real
  profitPercent :: real

definition MIN_PROFIT_PCT :: real where
  "MIN_PROFIT_PCT = 2 / 100"

definition MAX_PROFIT_PCT :: real where
  "MAX_PROFIT_PCT = 15 / 100"

text \<open>\<open>outcomes.reduce((sum, oc) => sum + oc.price, 0)\<close>.\<close>

definition sumPrices :: "Outcome list \<Rightarrow> real" where
  "sumPrices os = foldl (\<lambda>s oc. s + o_price oc) 0 os"

definition checkMarketForArbitrage :: "Config \<Rightarrow> Market \<Rightarrow> ArbitrageOpportunity option" where
  "checkMarketForArbitrage cfg market =
     (if length (m_outcomes market) < 2 then None
      else if m_liquidity market < minMarketLiquidity cfg then None
      else if list_ex (\<lambda>oc. o_price oc \<le> 0 \<or> o_price oc \<ge> 1) (m_outcomes market) then None
      else
        let tc = sumPrices (m_outcomes market) in
        if tc \<ge> 1 then None
        else
          let gp = 1 - tc; pp = gp / tc in
          if pp < MIN_PROFIT_PCT then None
          else if pp > MAX_PROFIT_PCT then None
          else Some
            \<lparr>opp_market = market, opp_strategy = Arbitrage, opp_side = YES,
             opp_outcomeIndex = 0, opp_entryPrice = tc, opp_estimatedProb = 1,
             opp_edge = gp, opp_confidence = ArbitrageConf,
             arb_outcomes =
               map (\<lambda>oc. \<lparr>ao_name = o_name oc, ao_price = o_price oc, ao_tokenId = o_tokenId oc\<rparr>)
                 (m_outcomes market),
             totalCost = tc, guaranteedProfit = gp, profitPercent = pp\<rparr>)"

text \<open>
  \<open>scan\<close> collects the opportunities in market order and sorts them by profit percentage,
  highest first; the sort of the runtime is stable, as is \<open>sort_key\<close>.
\<close>

definition scan :: "Config \<Rightarrow> Market list \<Rightarrow> ArbitrageOpportunity list" where
  "scan cfg markets =
     sort_key (\<lambda>oc. - profitPercent oc) (List.map_filter (checkMarketForArbitrage cfg) markets)"

text \<open>Arbitrage baskets are held to resolution.\<close>

definition arbitrage_shouldExit :: "Position \<Rightarrow> real \<Rightarrow> bool" where
  "arbitrage_shouldExit position currentPrice = False"

section \<open>Paper simulator (src/core/paper-executor.ts)\<close>

definition SIMULATED_FEE_RATE :: real where
  "SIMULATED_FEE_RATE = 2 / 1000"

definition SIMULATED_SPREAD :: real where
  "SIMULATED_SPREAD = 2 / 100"

definition SIMULATED_SLIPPAGE :: real where
  "SIMULATED_SLIPPAGE = 5 / 1000"

text \<open>
  The executor's private fields, and the module-level set \<open>sellingPositions\<close> of the
  positions being sold.
\<close>

record PaperExecutor =
  balance :: real
  peakValue :: real
  startingBalance :: real
  sellingPositions :: "string set"

text \<open>
  \<open>getPortfolio\<close> raises the recorded peak when the total value exceeds it, so it returns
  the executor as well. The snapshot's \<open>totalPnlPercent\<close> (display only) is left out.
\<close>

definition getPortfolio :: "PaperExecutor \<Rightarrow> Store \<Rightarrow> Portfolio \<times> PaperExecutor" where
  "getPortfolio pe st =
     (let openPositions = getOpenPositions st;
          positionsValue = foldl (\<lambda>s p. s + p_currentPrice p * p_shares p) 0 openPositions;
          totalValue = balance pe + positionsValue;
          totalPnl = totalValue - startingBalance pe;
          peak = (if totalValue > peakValue pe then totalValue else peakValue pe);
          drawdown = peak - totalValue;
          drawdownPercent = (if peak > 0 then (drawdown / peak) * 100 else 0)
      in (\<lparr>pf_balance = balance pe, pf_totalValue = totalValue,
           pf_startingBalance = startingBalance pe, pf_totalPnl = totalPnl,
           pf_openPositions = openPositions, pf_allocations = allocations st,
           pf_drawdown = drawdown, pf_drawdownPercent = drawdownPercent,
           pf_peakValue = peak\<rparr>,
          pe\<lparr>peakValue := peak\<rparr>))"

text \<open>The answer of \<open>canTrade\<close>: allowed, or the reason why not.\<close>

datatype CanTrade =
  Allowed | DrawdownHalt | InsufficientBuffer | NotInitialized | InsufficientBalance

definition allowed :: "CanTrade \<Rightarrow> bool" where
  "allowed c = (c = Allowed)"

definition canTrade :: "Config \<Rightarrow> PaperExecutor \<Rightarrow> Store \<Rightarrow> CanTrade \<times> PaperExecutor" where
  "canTrade cfg pe0 st =
     (let (portfolio, pe) = getPortfolio pe0 st in
      if pf_drawdownPercent portfolio \<ge> drawdownHaltPct cfg * 100 then (DrawdownHalt, pe)
      else
        let bufferRequired = pf_totalValue portfolio * minBufferPct cfg in
        if balance pe < bufferRequired then (InsufficientBuffer, pe)
        else (Allowed, pe))"

definition kellyFractions :: "ConfidenceLevel \<Rightarrow> real" where
  "kellyFractions c =
     (case c of Low \<Rightarrow> 15 / 100 | Standard \<Rightarrow> 25 / 100 | High \<Rightarrow> 40 / 100
              | ArbitrageConf \<Rightarrow> 50 / 100)"

text \<open>
  \<open>Math.min(kellySize, cap)\<close> with \<open>kellySize = edge / (1 - entryPrice) * fraction\<close>, for a
  positive edge and fraction: at \<open>entryPrice = 1\<close> the source's quotient is \<open>+Infinity\<close> and
  the minimum is the cap.
\<close>

definition kellyCapped :: "real \<Rightarrow> real \<Rightarrow> real \<Rightarrow> real \<Rightarrow> real" where
  "kellyCapped edge entryPrice fraction cap =
     (if entryPrice = 1 then cap else min (edge / (1 - entryPrice) * fraction) cap)"

definition sumSizes :: "Position list \<Rightarrow> real" where
  "sumSizes ps = foldl (\<lambda>s p. s + p_size p) 0 ps"

definition calculatePositionSize ::
  "Config \<Rightarrow> PaperExecutor \<Rightarrow> Store \<Rightarrow> Opportunity \<Rightarrow> real \<times> PaperExecutor" where
  "calculatePositionSize cfg pe0 st opportunity =
     (let (portfolio, pe) = getPortfolio pe0 st;
          edge = opp_edge opportunity
      in if edge \<le> 0 then (0, pe)
      else
        let maxPct = kellyCapped edge (opp_entryPrice opportunity)
                       (kellyFractions (opp_confidence opportunity)) (maxPositionPct cfg);
            size0 = maxPct * pf_totalValue portfolio;
            size1 =
              (case find (\<lambda>a. a_strategy a = opp_strategy opportunity)
                      (pf_allocations portfolio) of
                 None \<Rightarrow> size0
               | Some allocation \<Rightarrow>
                   let strategyBudget = pf_totalValue portfolio * a_currentWeight allocation;
                       currentStrategyValue =
                         sumSizes (filter (\<lambda>p. p_strategy p = opp_strategy opportunity)
                                     (pf_openPositions portfolio));
                       remainingBudget = strategyBudget - currentStrategyValue
                   in min size0 remainingBudget);
            categoryValue =
              sumSizes (filter (\<lambda>p. p_category p = m_category (opp_market opportunity))
                          (pf_openPositions portfolio));
            categoryLimit = pf_totalValue portfolio * maxCategoryPct cfg;
            categoryRemaining = categoryLimit - categoryValue;
            size2 = min size1 categoryRemaining;
            size3 = max (minPositionUsd cfg) (min size2 (maxPositionUsd cfg));
            size4 = min size3 (balance pe * (95 / 100));
            size5 = (if pf_drawdownPercent portfolio \<ge> drawdownWarningPct cfg * 100
                     then size4 * (5 / 10) else size4)
        in (max 0 size5, pe))"

text \<open>\<open>opportunity.market.outcomes[opportunity.outcomeIndex]?.id || ''\<close>.\<close>

definition outcomeIdAt :: "Market \<Rightarrow> nat \<Rightarrow> string" where
  "outcomeIdAt market i =
     (if i < length (m_outcomes market) then o_id (m_outcomes market ! i) else '''')"

text \<open>
  The executor's calls return their result (a thrown error as \<open>Inl\<close>) together with the
  executor and the ledger as they are when the call ends. Prices of the data model lie
  strictly between 0 and 1; for an opportunity with entry price 0, which is outside it,
  the share count \<open>netSize / executionPrice\<close> of the source is no finite number and the
  one below is 0.
\<close>

definition paper_executeBuy ::
  "Config \<Rightarrow> Opportunity \<Rightarrow> PaperExecutor \<Rightarrow> Store
     \<Rightarrow> (error + Position option) \<times> PaperExecutor \<times> Store" where
  "paper_executeBuy cfg opportunity pe0 st =
     (let (ct, pe1) = canTrade cfg pe0 st in
      if \<not> allowed ct then (Inr None, pe1, st)
      else
        let (size, pe2) = calculatePositionSize cfg pe1 st opportunity in
        if size < minPositionUsd cfg then (Inr None, pe2, st)
        else
          let executionPrice =
                min (99 / 100)
                  (opp_entryPrice opportunity * (1 + SIMULATED_SPREAD + SIMULATED_SLIPPAGE));
              fees = size * SIMULATED_FEE_RATE;
              netSize = size - fees;
              shares = netSize / executionPrice;
              pe3 = pe2\<lparr>balance := balance pe2 - size\<rparr>
          in case createPosition st
                 \<lparr>p_id = [], p_marketId = m_id (opp_market opportunity),
                  p_marketQuestion = m_question (opp_market opportunity),
                  p_category = m_category (opp_market opportunity),
                  p_strategy = opp_strategy opportunity, p_side = opp_side opportunity,
                  p_outcomeId =
                    outcomeIdAt (opp_market opportunity) (opp_outcomeIndex opportunity),
                  p_entryPrice = executionPrice, p_currentPrice = executionPrice,
                  p_size = netSize, p_cost = size, p_shares = shares, p_pnl = 0,
                  p_pnlPercent = 0, p_status = Open\<rparr> of
                 Inl e \<Rightarrow> (Inl e, pe3, st)
               | Inr (position, st1) \<Rightarrow>
                   (case recordTrade st1
                      \<lparr>t_id = [], t_positionId = p_id position,
                       t_marketId = m_id (opp_market opportunity),
                       t_category = m_category (opp_market opportunity),
                       t_strategy = opp_strategy opportunity, t_side = opp_side opportunity,
                       t_action = BUY, t_price = executionPrice, t_size = netSize,
                       t_shares = shares, t_fees = fees, t_pnl = None\<rparr> of
                      Inl e \<Rightarrow> (Inl e, pe3, st1)
                    | Inr (trade, st2) \<Rightarrow>
                        let (portfolio, pe4) = getPortfolio pe3 st2
                        in (Inr (Some position), pe4, savePortfolioSnapshot st2 portfolio)))"

text \<open>
  \<open>executeSell\<close>: the \<open>finally\<close> block removes the position from \<open>sellingPositions\<close> on
  every path that entered the \<open>try\<close>.
\<close>

definition paper_executeSell ::
  "Position \<Rightarrow> real \<Rightarrow> PaperExecutor \<Rightarrow> Store
     \<Rightarrow> (error + Trade option) \<times> PaperExecutor \<times> Store" where
  "paper_executeSell position currentPrice pe0 st =
     (if p_id position \<in> sellingPositions pe0 then (Inr None, pe0, st)
      else
        let pe = pe0\<lparr>sellingPositions := insert (p_id position) (sellingPositions pe0)\<rparr>;
            executionPrice =
              max (1 / 100) (currentPrice * (1 - SIMULATED_SPREAD - SIMULATED_SLIPPAGE));
            fees = p_shares position * executionPrice * SIMULATED_FEE_RATE;
            grossProceeds = p_shares position * executionPrice;
            netProceeds = grossProceeds - fees;
            pnl = netProceeds - p_size position;
            pe1 = pe\<lparr>balance := balance pe + netProceeds\<rparr>;
            st1 = snd (closePosition st (p_id position) executionPrice)
        in case recordTrade st1
             \<lparr>t_id = [], t_positionId = p_id position, t_marketId = p_marketId position,
              t_category = p_category position, t_strategy = p_strategy position,
              t_side = p_side position, t_action = SELL, t_price = executionPrice,
              t_size = netProceeds, t_shares = p_shares position, t_fees = fees,
              t_pnl = Some pnl\<rparr> of
             Inl e \<Rightarrow>
               (Inl e, pe1\<lparr>sellingPositions := sellingPositions pe1 - {p_id position}\<rparr>, st1)
           | Inr (trade, st2) \<Rightarrow>
               let (portfolio, pe2) = getPortfolio pe1 st2
               in (Inr (Some trade),
                   pe2\<lparr>sellingPositions := sellingPositions pe2 - {p_id position}\<rparr>,
                   savePortfolioSnapshot st2 portfolio))"

text \<open>\<open>outcome.name.toUpperCase() === 'YES' ? 'YES' : 'NO'\<close>, on ASCII names.\<close>

definition toUpperChar :: "char \<Rightarrow> char" where
  "toUpperChar c =
     (case c of
        Char b0 b1 b2 b3 b4 b5 b6 b7 \<Rightarrow>
          if 97 \<le> (of_char c :: nat) \<and> (of_char c :: nat) \<le> 122
          then Char b0 b1 b2 b3 b4 False b6 b7 else c)"

definition toUpperCase :: "string \<Rightarrow> string" where
  "toUpperCase s = map toUpperChar s"

definition sideOfName :: "string \<Rightarrow> Side" where
  "sideOfName name = (if toUpperCase name = ''YES'' then YES else NO)"

text \<open>The market argument of \<open>executeArbitrageBuy\<close>: id, question and category.\<close>

record ArbMarket =
  am_id :: string
  am_question :: string
  am_category :: MarketCategory

text \<open>
  The loop over the outcomes. An outcome priced 0 makes \<open>shares = outcomeSize / 0\<close> a
  \<open>NaN\<close>, which the \<open>NOT NULL\<close> column of the positions table refuses: the insert throws.
\<close>

fun paper_arbLoop ::
  "ArbMarket \<Rightarrow> real \<Rightarrow> real \<Rightarrow> real \<Rightarrow> real \<Rightarrow> nat \<Rightarrow> ArbOutcome list \<Rightarrow> Position list \<Rightarrow> Store
     \<Rightarrow> (error + Position list) \<times> Store" where
  "paper_arbLoop market tc totalInvestment netInvestment fees n [] acc st = (Inr acc, st)"
| "paper_arbLoop market tc totalInvestment netInvestment fees n (outcome # rest) acc st =
     (let outcomeSize = (netInvestment * ao_price outcome) / tc;
          outcomeCost = (totalInvestment * ao_price outcome) / tc
      in if ao_price outcome = 0 then (Inl ConstraintError, st)
      else
        let shares = outcomeSize / ao_price outcome in
        case createPosition st
               \<lparr>p_id = [], p_marketId = am_id market, p_marketQuestion = am_question market,
                p_category = am_category market, p_strategy = Arbitrage,
                p_side = sideOfName (ao_name outcome), p_outcomeId = ao_tokenId outcome,
                p_entryPrice = ao_price outcome, p_currentPrice = ao_price outcome,
                p_size = outcomeSize, p_cost = outcomeCost, p_shares = shares, p_pnl = 0,
                p_pnlPercent = 0, p_status = Open\<rparr> of
          Inl e \<Rightarrow> (Inl e, st)
        | Inr (position, st1) \<Rightarrow>
            (case recordTrade st1
                    \<lparr>t_id = [], t_positionId = p_id position, t_marketId = am_id market,
                     t_category = am_category market, t_strategy = Arbitrage,
                     t_side = p_side position, t_action = BUY, t_price = ao_price outcome,
                     t_size = outcomeSize, t_shares = shares, t_fees = fees / real n,
                     t_pnl = None\<rparr> of
               Inl e \<Rightarrow> (Inl e, st1)
             | Inr (trade, st2) \<Rightarrow>
                 paper_arbLoop market tc totalInvestment netInvestment fees n rest
                   (acc @ [position]) st2))"

text \<open>
  \<open>executeArbitrageBuy\<close>. With \<open>totalCost = 0\<close> the source's \<open>sets\<close> is \<open>-Infinity\<close> (no
  trade) for a negative \<open>maxSize\<close> and \<open>Infinity\<close> or \<open>NaN\<close> otherwise.
\<close>

definition paper_executeArbitrageBuy ::
  "Config \<Rightarrow> ArbMarket \<Rightarrow> ArbOutcome list \<Rightarrow> real \<Rightarrow> real \<Rightarrow> PaperExecutor \<Rightarrow> Store
     \<Rightarrow> (error + Position list) \<times> PaperExecutor \<times> Store" where
  "paper_executeArbitrageBuy cfg market outcomes tc gp pe0 st =
     (let (ct, pe1) = canTrade cfg pe0 st in
      if \<not> allowed ct then (Inr [], pe1, st)
      else
        let (portfolio, pe2) = getPortfolio pe1 st;
            maxSize = min (min (pf_totalValue portfolio * maxPositionPct cfg)
                             (balance pe2 * (9 / 10))) (maxPositionUsd cfg)
        in if tc = 0 then (if maxSize < 0 then (Inr [], pe2, st) else (Inl NonFinite, pe2, st))
        else
          let sets = \<lfloor>maxSize / tc\<rfloor> in
          if sets < 1 then (Inr [], pe2, st)
          else
            let totalInvestment = real_of_int sets * tc;
                fees = totalInvestment * SIMULATED_FEE_RATE;
                netInvestment = totalInvestment - fees;
                pe3 = pe2\<lparr>balance := balance pe2 - totalInvestment\<rparr>
            in case paper_arbLoop market tc totalInvestment netInvestment fees
                      (length outcomes) outcomes [] st of
                 (Inl e, st1) \<Rightarrow> (Inl e, pe3, st1)
               | (Inr created, st1) \<Rightarrow>
                   let (portfolio2, pe4) = getPortfolio pe3 st1
                   in (Inr created, pe4, savePortfolioSnapshot st1 portfolio2))"


section \<open>Real broker adapter (src/core/real-executor.ts)\<close>

definition REAL_FEE_RATE :: real where
  "REAL_FEE_RATE = 2 / 1000"

record RealExecutor =
  initialized :: bool
  realBalance :: real
  r_peakValue :: real
  r_startingBalance :: real

text \<open>
  The order client is an outside collaborator. An awaited call either resolves with a
  value or rejects; what it answers is an input of the model. A call of the adapter is
  modelled as one step, with the answers of the requests it awaits given beforehand:
  \<open>ext_order k\<close> for its \<open>k\<close>-th \<open>placeMarketOrder\<close> and \<open>ext_balance\<close> for \<open>getBalance\<close>.
\<close>

datatype 'a Response = Resolves 'a | Rejects

record OrderResult =
  statusFilled :: bool
  filledAmount :: real
  avgFillPrice :: real

record External =
  ext_order :: "nat \<Rightarrow> OrderResult Response"
  ext_balance :: "real Response"

text \<open>
  \<open>getPortfolio\<close> of the real adapter awaits the cash balance and the broker's positions
  with their prices; the balance and the summed value of those positions are inputs.
\<close>

definition real_getPortfolio ::
  "real \<Rightarrow> real \<Rightarrow> RealExecutor \<Rightarrow> Store \<Rightarrow> error + (Portfolio \<times> RealExecutor)" where
  "real_getPortfolio bal positionsValue re0 st =
     (if \<not> initialized re0 then Inl ExecutorNotInitialized
      else
        let re = re0\<lparr>realBalance := bal\<rparr>;
            totalValue = realBalance re + positionsValue;
            totalPnl = totalValue - r_startingBalance re;
            peak = (if totalValue > r_peakValue re then totalValue else r_peakValue re);
            drawdown = peak - totalValue;
            drawdownPercent = (if peak > 0 then (drawdown / peak) * 100 else 0)
        in Inr (\<lparr>pf_balance = realBalance re, pf_totalValue = totalValue,
                 pf_startingBalance = r_startingBalance re, pf_totalPnl = totalPnl,
                 pf_openPositions = getOpenPositions st, pf_allocations = allocations st,
                 pf_drawdown = drawdown, pf_drawdownPercent = drawdownPercent,
                 pf_peakValue = peak\<rparr>,
                re\<lparr>r_peakValue := peak\<rparr>))"

definition real_canTrade :: "Config \<Rightarrow> RealExecutor \<Rightarrow> CanTrade" where
  "real_canTrade cfg re =
     (if \<not> initialized re then NotInitialized
      else if realBalance re < minPositionUsd cfg * 2 then InsufficientBalance
      else Allowed)"

definition real_kellyFractions :: "ConfidenceLevel \<Rightarrow> real" where
  "real_kellyFractions c =
     (case c of Low \<Rightarrow> 75 / 1000 | Standard \<Rightarrow> 125 / 1000 | High \<Rightarrow> 20 / 100
              | ArbitrageConf \<Rightarrow> 25 / 100)"

definition real_calculatePositionSize :: "Config \<Rightarrow> RealExecutor \<Rightarrow> Opportunity \<Rightarrow> real" where
  "real_calculatePositionSize cfg re opportunity =
     (let edge = opp_edge opportunity in
      if edge \<le> 0 then 0
      else
        let maxPct = kellyCapped edge (opp_entryPrice opportunity)
                       (real_kellyFractions (opp_confidence opportunity))
                       (maxPositionPct cfg * (5 / 10));
            size0 = maxPct * realBalance re;
            size1 = max (minPositionUsd cfg) (min size0 (maxPositionUsd cfg * (5 / 10)));
            size2 = min size1 (realBalance re * (8 / 10))
        in max 0 size2)"

text \<open>\<open>opportunity.market.outcomes[opportunity.outcomeIndex]?.tokenId\<close>, empty when absent.\<close>

definition tokenIdAt :: "Market \<Rightarrow> nat \<Rightarrow> string" where
  "tokenIdAt market i =
     (if i < length (m_outcomes market) then o_tokenId (m_outcomes market ! i) else '''')"

text \<open>\<open>x || y\<close> on numbers: \<open>y\<close> when \<open>x\<close> is 0.\<close>

definition orElse :: "real \<Rightarrow> real \<Rightarrow> real" where
  "orElse x y = (if x = 0 then y else x)"

text \<open>
  \<open>executeBuy\<close> catches whatever its \<open>try\<close> block throws and returns null, so it never
  throws itself; the ledger keeps what was written before the throw.
\<close>

definition real_executeBuy ::
  "Config \<Rightarrow> External \<Rightarrow> Opportunity \<Rightarrow> RealExecutor \<Rightarrow> Store
     \<Rightarrow> (error + Position option) \<times> RealExecutor \<times> Store" where
  "real_executeBuy cfg ext opportunity re st =
     (if \<not> initialized re then (Inr None, re, st)
      else if \<not> allowed (real_canTrade cfg re) then (Inr None, re, st)
      else
        let size = real_calculatePositionSize cfg re opportunity in
        if size < minPositionUsd cfg then (Inr None, re, st)
        else
          let tokenId = tokenIdAt (opp_market opportunity) (opp_outcomeIndex opportunity) in
          if tokenId = [] then (Inr None, re, st)
          else
            let shares = size / opp_entryPrice opportunity in
            case ext_order ext 0 of
              Rejects \<Rightarrow> (Inr None, re, st)
            | Resolves orderResult \<Rightarrow>
                if \<not> statusFilled orderResult \<and> filledAmount orderResult = 0
                then (Inr None, re, st)
                else
                  let filledShares = orElse (filledAmount orderResult) shares;
                      avgPrice = orElse (avgFillPrice orderResult) (opp_entryPrice opportunity);
                      actualSize = filledShares * avgPrice;
                      fees = actualSize * REAL_FEE_RATE
                  in case createPosition st
                       \<lparr>p_id = [], p_marketId = m_id (opp_market opportunity),
                        p_marketQuestion = m_question (opp_market opportunity),
                        p_category = m_category (opp_market opportunity),
                        p_strategy = opp_strategy opportunity, p_side = opp_side opportunity,
                        p_outcomeId = tokenId, p_entryPrice = avgPrice,
                        p_currentPrice = avgPrice, p_size = actualSize - fees,
                        p_cost = actualSize, p_shares = filledShares, p_pnl = 0,
                        p_pnlPercent = 0, p_status = Open\<rparr> of
                       Inl e \<Rightarrow> (Inr None, re, st)
                     | Inr (position, st1) \<Rightarrow>
                         (case recordTrade st1
                            \<lparr>t_id = [], t_positionId = p_id position,
                             t_marketId = m_id (opp_market opportunity),
                             t_category = m_category (opp_market opportunity),
                             t_strategy = opp_strategy opportunity,
                             t_side = opp_side opportunity, t_action = BUY,
                             t_price = avgPrice, t_size = actualSize - fees,
                             t_shares = filledShares, t_fees = fees, t_pnl = None\<rparr> of
                            Inl e \<Rightarrow> (Inr None, re, st1)
                          | Inr (trade, st2) \<Rightarrow>
                              (case ext_balance ext of
                                 Rejects \<Rightarrow> (Inr None, re, st2)
                               | Resolves b \<Rightarrow>
                                   (Inr (Some position), re\<lparr>realBalance := b\<rparr>, st2))))"

definition real_executeSell ::
  "External \<Rightarrow> Position \<Rightarrow> real \<Rightarrow> RealExecutor \<Rightarrow> Store
     \<Rightarrow> (error + Trade option) \<times> RealExecutor \<times> Store" where
  "real_executeSell ext position currentPrice re st =
     (if \<not> initialized re then (Inr None, re, st)
      else
        case ext_order ext 0 of
          Rejects \<Rightarrow> (Inr None, re, st)
        | Resolves orderResult \<Rightarrow>
            if \<not> statusFilled orderResult \<and> filledAmount orderResult = 0
            then (Inr None, re, st)
            else
              let filledShares = orElse (filledAmount orderResult) (p_shares position);
                  avgPrice = orElse (avgFillPrice orderResult) currentPrice;
                  grossProceeds = filledShares * avgPrice;
                  fees = grossProceeds * REAL_FEE_RATE;
                  netProceeds = grossProceeds - fees;
                  pnl = netProceeds - p_size position;
                  st1 = snd (closePosition st (p_id position) avgPrice)
              in case recordTrade st1
                   \<lparr>t_id = [], t_positionId = p_id position,
                    t_marketId = p_marketId position, t_category = p_category position,
                    t_strategy = p_strategy position, t_side = p_side position,
                    t_action = SELL, t_price = avgPrice, t_size = netProceeds,
                    t_shares = filledShares, t_fees = fees, t_pnl = Some pnl\<rparr> of
                   Inl e \<Rightarrow> (Inr None, re, st1)
                 | Inr (trade, st2) \<Rightarrow>
                     (case ext_balance ext of
                        Rejects \<Rightarrow> (Inr None, re, st2)
                      | Resolves b \<Rightarrow> (Inr (Some trade), re\<lparr>realBalance := b\<rparr>, st2)))"

text \<open>
  The loop of the real arbitrage buy: one market order per outcome; a leg with nothing
  filled creates no position; a throw ends the loop and the positions created so far
  are returned (\<open>False\<close> in the result: the loop was cut short). The share count the
  source requests for a leg only goes to the order client, whose answer is an input
  here, so it is not computed.
\<close>

fun real_arbLoop ::
  "External \<Rightarrow> ArbMarket \<Rightarrow> nat \<Rightarrow> ArbOutcome list \<Rightarrow> Position list \<Rightarrow> Store
     \<Rightarrow> (bool \<times> Position list) \<times> Store" where
  "real_arbLoop ext market k [] acc st = ((True, acc), st)"
| "real_arbLoop ext market k (outcome # rest) acc st =
     (case ext_order ext k of
        Rejects \<Rightarrow> ((False, acc), st)
      | Resolves orderResult \<Rightarrow>
          if filledAmount orderResult > 0 then
            let filledShares = filledAmount orderResult;
                avgPrice = orElse (avgFillPrice orderResult) (ao_price outcome);
                actualSize = filledShares * avgPrice;
                fees = actualSize * REAL_FEE_RATE
            in case createPosition st
                 \<lparr>p_id = [], p_marketId = am_id market,
                  p_marketQuestion = am_question market, p_category = am_category market,
                  p_strategy = Arbitrage, p_side = sideOfName (ao_name outcome),
                  p_outcomeId = ao_tokenId outcome, p_entryPrice = avgPrice,
                  p_currentPrice = avgPrice, p_size = actualSize - fees,
                  p_cost = actualSize, p_shares = filledShares, p_pnl = 0,
                  p_pnlPercent = 0, p_status = Open\<rparr> of
                 Inl e \<Rightarrow> ((False, acc), st)
               | Inr (position, st1) \<Rightarrow>
                   (case recordTrade st1
                      \<lparr>t_id = [], t_positionId = p_id position, t_marketId = am_id market,
                       t_category = am_category market, t_strategy = Arbitrage,
                       t_side = p_side position, t_action = BUY, t_price = avgPrice,
                       t_size = actualSize - fees, t_shares = filledShares, t_fees = fees,
                       t_pnl = None\<rparr> of
                      Inl e \<Rightarrow> ((False, acc), st1)
                    | Inr (trade, st2) \<Rightarrow>
                        real_arbLoop ext market (Suc k) rest (acc @ [position]) st2)
          else real_arbLoop ext market (Suc k) rest acc st)"

text \<open>
  \<open>sets = Math.floor(maxSize / totalCost)\<close> and the test \<open>sets < 1\<close>: with \<open>totalCost = 0\<close>
  the quotient is \<open>-Infinity\<close> for a negative \<open>maxSize\<close> (no trade) and \<open>Infinity\<close> or \<open>NaN\<close>
  otherwise, for which the test is false.
\<close>

definition noWholeSet :: "real \<Rightarrow> real \<Rightarrow> bool" where
  "noWholeSet maxSize tc = (if tc = 0 then maxSize < 0 else \<lfloor>maxSize / tc\<rfloor> < 1)"

definition real_executeArbitrageBuy ::
  "Config \<Rightarrow> External \<Rightarrow> ArbMarket \<Rightarrow> ArbOutcome list \<Rightarrow> real \<Rightarrow> real \<Rightarrow> RealExecutor \<Rightarrow> Store
     \<Rightarrow> (error + Position list) \<times> RealExecutor \<times> Store" where
  "real_executeArbitrageBuy cfg ext market outcomes tc gp re st =
     (if \<not> initialized re then (Inr [], re, st)
      else if \<not> allowed (real_canTrade cfg re) then (Inr [], re, st)
      else
        let maxSize = min (realBalance re * (3 / 10)) (maxPositionUsd cfg * (25 / 100)) in
        if noWholeSet maxSize tc then (Inr [], re, st)
        else
          case real_arbLoop ext market 0 outcomes [] st of
            ((False, created), st1) \<Rightarrow> (Inr created, re, st1)
          | ((True, created), st1) \<Rightarrow>
              (case ext_balance ext of
                 Rejects \<Rightarrow> (Inr created, re, st1)
                 | Resolves b \<Rightarrow> (Inr created, re\<lparr>realBalance := b\<rparr>, st1)))"

section \<open>Unified execution gateway (src/core/executor.ts)\<close>

text \<open>
  The gateway is modelled from the revision of \<open>executor.ts\<close> that checks the open
  positions before the cooldown. The module-level maps \<open>pendingBuys\<close> and \<open>pendingSells\<close>,
  the mode, the two executors and the ledger make up the state of the system.

  An \<open>async\<close> call runs without interruption up to its first \<open>await\<close>. Each gateway call is
  therefore split into three steps: \<open>enter\<close> (the guards and the pending mark, before the
  first \<open>await\<close>), the dispatch to the executor of the current mode, and \<open>exit\<close> (what the
  \<open>catch\<close> or \<open>finally\<close> block does when the awaited call has settled). Other calls may run
  between the steps of one call; \<open>executeBuy\<close> and \<open>executeSell\<close> below are the three steps
  in a row, with nothing in between.
\<close>

datatype Mode = PaperMode | RealMode

record System =
  mode :: Mode
  pendingBuys :: "string \<rightharpoonup> int"
  pendingSells :: "string set"
  paperEx :: PaperExecutor
  realEx :: RealExecutor
  store :: Store

definition BUY_COOLDOWN_MS :: int where
  "BUY_COOLDOWN_MS = 5000"

definition sideString :: "Side \<Rightarrow> string" where
  "sideString sd = (case sd of YES \<Rightarrow> ''YES'' | NO \<Rightarrow> ''NO'')"

definition buyKey :: "Opportunity \<Rightarrow> string" where
  "buyKey opportunity =
     m_id (opp_market opportunity) @ ''|'' @ sideString (opp_side opportunity)"

datatype BuyEntry = SkippedExisting | SkippedCooldown | BuyDispatched

text \<open>\<open>lastBuy && now - lastBuy < BUY_COOLDOWN_MS\<close>: a missing or zero timestamp is falsy.\<close>

definition inCooldown :: "int option \<Rightarrow> int \<Rightarrow> bool" where
  "inCooldown lastBuy now =
     (case lastBuy of None \<Rightarrow> False | Some t \<Rightarrow> t \<noteq> 0 \<and> now - t < BUY_COOLDOWN_MS)"

definition executeBuy_enter :: "int \<Rightarrow> Opportunity \<Rightarrow> System \<Rightarrow> BuyEntry \<times> System" where
  "executeBuy_enter now opportunity s =
     (let openPositions = getOpenPositions (store s);
          existingPosition =
            find (\<lambda>p. p_marketId p = m_id (opp_market opportunity)
                       \<and> p_side p = opp_side opportunity) openPositions
      in if existingPosition \<noteq> None then (SkippedExisting, s)
      else
        let lastBuy = pendingBuys s (buyKey opportunity) in
        if inCooldown lastBuy now then (SkippedCooldown, s)
        else (BuyDispatched, s\<lparr>pendingBuys := (pendingBuys s)(buyKey opportunity \<mapsto> now)\<rparr>))"

definition dispatchBuy ::
  "Config \<Rightarrow> External \<Rightarrow> Opportunity \<Rightarrow> System \<Rightarrow> (error + Position option) \<times> System" where
  "dispatchBuy cfg ext opportunity s =
     (case mode s of
        RealMode \<Rightarrow>
          (let (r, re, st) = real_executeBuy cfg ext opportunity (realEx s) (store s)
           in (r, s\<lparr>realEx := re, store := st\<rparr>))
      | PaperMode \<Rightarrow>
          (let (r, pe, st) = paper_executeBuy cfg opportunity (paperEx s) (store s)
           in (r, s\<lparr>paperEx := pe, store := st\<rparr>)))"

definition executeBuy_exit ::
  "Opportunity \<Rightarrow> (error + Position option) \<Rightarrow> System \<Rightarrow> (error + Position option) \<times> System" where
  "executeBuy_exit opportunity r s =
     (case r of
        Inl e \<Rightarrow> (Inl e, s\<lparr>pendingBuys := (pendingBuys s)(buyKey opportunity := None)\<rparr>)
      | Inr v \<Rightarrow> (Inr v, s))"

definition executeBuy ::
  "Config \<Rightarrow> External \<Rightarrow> int \<Rightarrow> Opportunity \<Rightarrow> System \<Rightarrow> (error + Position option) \<times> System" where
  "executeBuy cfg ext now opportunity s =
     (case executeBuy_enter now opportunity s of
        (BuyDispatched, s1) \<Rightarrow>
          (let (r, s2) = dispatchBuy cfg ext opportunity s1 in executeBuy_exit opportunity r s2)
      | (skipped, s1) \<Rightarrow> (Inr None, s1))"

datatype SellEntry = SkippedPending | SellDispatched

definition executeSell_enter :: "Position \<Rightarrow> System \<Rightarrow> SellEntry \<times> System" where
  "executeSell_enter position s =
     (if p_id position \<in> pendingSells s then (SkippedPending, s)
      else (SellDispatched, s\<lparr>pendingSells := insert (p_id position) (pendingSells s)\<rparr>))"

definition dispatchSell ::
  "External \<Rightarrow> Position \<Rightarrow> real \<Rightarrow> System \<Rightarrow> (error + Trade option) \<times> System" where
  "dispatchSell ext position currentPrice s =
     (case mode s of
        RealMode \<Rightarrow>
          (let (r, re, st) = real_executeSell ext position currentPrice (realEx s) (store s)
           in (r, s\<lparr>realEx := re, store := st\<rparr>))
      | PaperMode \<Rightarrow>
          (let (r, pe, st) = paper_executeSell position currentPrice (paperEx s) (store s)
           in (r, s\<lparr>paperEx := pe, store := st\<rparr>)))"

text \<open>The \<open>finally\<close> block: whatever the awaited call gave, the mark is removed.\<close>

definition executeSell_exit ::
  "Position \<Rightarrow> (error + Trade option) \<Rightarrow> System \<Rightarrow> (error + Trade option) \<times> System" where
  "executeSell_exit position r s =
     (r, s\<lparr>pendingSells := pendingSells s - {p_id position}\<rparr>)"

definition executeSell ::
  "External \<Rightarrow> Position \<Rightarrow> real \<Rightarrow> System \<Rightarrow> (error + Trade option) \<times> System" where
  "executeSell ext position currentPrice s =
     (case executeSell_enter position s of
        (SellDispatched, s1) \<Rightarrow>
          (let (r, s2) = dispatchSell ext position currentPrice s1
           in executeSell_exit position r s2)
      | (SkippedPending, s1) \<Rightarrow> (Inr None, s1))"

definition executeArbitrageBuy ::
  "Config \<Rightarrow> External \<Rightarrow> ArbMarket \<Rightarrow> ArbOutcome list \<Rightarrow> real \<Rightarrow> real \<Rightarrow> System
     \<Rightarrow> (error + Position list) \<times> System" where
  "executeArbitrageBuy cfg ext market outcomes tc gp s =
     (case mode s of
        RealMode \<Rightarrow>
          (let (r, re, st) =
                 real_executeArbitrageBuy cfg ext market outcomes tc gp (realEx s) (store s)
           in (r, s\<lparr>realEx := re, store := st\<rparr>))
      | PaperMode \<Rightarrow>
          (let (r, pe, st) =
                 paper_executeArbitrageBuy cfg market outcomes tc gp (paperEx s) (store s)
           in (r, s\<lparr>paperEx := pe, store := st\<rparr>)))"

text \<open>
  Two sell calls on the same position that overlap: the first call enters; the second
  call runs while the first is in flight, either before the executor's work for the
  first call has touched the state (\<open>early\<close>, as when a real order is still out) or after
  it (the paper executor finishes its work before the gateway's own \<open>await\<close> resumes);
  then the first call exits. The result is (first call's result, second call's result,
  final state).
\<close>

definition concurrentSells ::
  "External \<Rightarrow> Position \<Rightarrow> real \<Rightarrow> real \<Rightarrow> bool \<Rightarrow> System
     \<Rightarrow> (error + Trade option) \<times> (error + Trade option) \<times> System" where
  "concurrentSells ext position priceA priceB early s =
     (case executeSell_enter position s of
        (SkippedPending, s1) \<Rightarrow>
          (let (rB, s2) = executeSell ext position priceB s1 in (Inr None, rB, s2))
      | (SellDispatched, s1) \<Rightarrow>
          if early then
            (let (rB, s2) = executeSell ext position priceB s1;
                 (r, s3) = dispatchSell ext position priceA s2;
                 (rA, s4) = executeSell_exit position r s3
             in (rA, rB, s4))
          else
            (let (r, s2) = dispatchSell ext position priceA s1;
                 (rB, s3) = executeSell ext position priceB s2;
                 (rA, s4) = executeSell_exit position r s3
             in (rA, rB, s4)))"

text \<open>
  The invariant of the data model: no two open positions share a (marketId, side) pair.
\<close>

definition positionKey :: "Position \<Rightarrow> string \<times> Side" where
  "positionKey p = (p_marketId p, p_side p)"

definition openKeys :: "Store \<Rightarrow> (string \<times> Side) list" where
  "openKeys st = map positionKey (getOpenPositions st)"

definition oneOpenPerKey :: "Store \<Rightarrow> bool" where
  "oneOpenPerKey st = distinct (map positionKey (getOpenPositions st))"




section \<open>The sizing rule as the specification words it\<close>

text \<open>
  The position sizer in the words of the specification, against which the two executors'
  \<open>calculatePositionSize\<close> are compared: size 0 for an edge that is not positive; else the
  full Kelly fraction \<open>edge / (1 - entryPrice)\<close> times the multiplier of the confidence tier,
  capped by the maximal position percentage of the total value, capped by the remaining
  strategy budget (for a strategy that has an allocation) and the remaining category
  budget, clamped to the absolute bounds, clamped to a fraction of the cash balance,
  halved when the drawdown has reached the warning threshold, and floored at 0. The
  multiplier table and the cash fraction are parameters.
\<close>

definition investedIn :: "(Position \<Rightarrow> bool) \<Rightarrow> Portfolio \<Rightarrow> real" where
  "investedIn which portfolio = sum_list (map p_size (filter which (pf_openPositions portfolio)))"

definition spec_positionSize ::
  "(ConfidenceLevel \<Rightarrow> real) \<Rightarrow> real \<Rightarrow> Config \<Rightarrow> Opportunity \<Rightarrow> Portfolio \<Rightarrow> real" where
  "spec_positionSize multiplier cashFraction cfg opportunity portfolio =
     (if opp_edge opportunity \<le> 0 then 0
      else
        let fullKelly = opp_edge opportunity / (1 - opp_entryPrice opportunity);
            fraction = fullKelly * multiplier (opp_confidence opportunity);
            capped = min fraction (maxPositionPct cfg) * pf_totalValue portfolio;
            byStrategy =
              (case find (\<lambda>a. a_strategy a = opp_strategy opportunity)
                      (pf_allocations portfolio) of
                 None \<Rightarrow> capped
               | Some a \<Rightarrow>
                   min capped
                     (a_currentWeight a * pf_totalValue portfolio
                        - investedIn (\<lambda>p. p_strategy p = opp_strategy opportunity) portfolio));
            byCategory =
              min byStrategy
                (maxCategoryPct cfg * pf_totalValue portfolio
                   - investedIn (\<lambda>p. p_category p = m_category (opp_market opportunity))
                       portfolio);
            clamped = max (minPositionUsd cfg) (min byCategory (maxPositionUsd cfg));
            byCash = min clamped (cashFraction * pf_balance portfolio);
            throttled =
              (if pf_drawdownPercent portfolio \<ge> drawdownWarningPct cfg * 100
               then byCash / 2 else byCash)
        in max 0 throttled)"

section \<open>Real-time event reactor (src/core/event-trader.ts)\<close>

definition PRICE_DROP_THRESHOLD :: real where
  "PRICE_DROP_THRESHOLD = 5 / 100"

definition PRICE_SPIKE_THRESHOLD :: real where
  "PRICE_SPIKE_THRESHOLD = 5 / 100"

definition WHALE_INSTANT_THRESHOLD :: real where
  "WHALE_INSTANT_THRESHOLD = 5000"

definition ARB_SPREAD_THRESHOLD :: real where
  "ARB_SPREAD_THRESHOLD = 98 / 100"

definition PRICE_TRADE_COOLDOWN :: int where
  "PRICE_TRADE_COOLDOWN = 60000"

definition WHALE_TRADE_COOLDOWN :: int where
  "WHALE_TRADE_COOLDOWN = 30000"

definition ARB_CHECK_COOLDOWN :: int where
  "ARB_CHECK_COOLDOWN = 5000"

record PricePoint =
  pp_price :: real
  pp_timestamp :: int

record PriceHistory =
  prices :: "PricePoint list"
  lastTradeTime :: int

record OutcomePrice =
  op_assetId :: string
  op_price :: real
  op_name :: string

record MarketPriceMap =
  mp_marketId :: string
  mp_outcomes :: "OutcomePrice list"
  lastArbCheck :: int

record MarketInfo =
  mi_market :: Market
  mi_outcomeIndex :: nat

record Stats =
  priceDropTrades :: nat
  whaleFollowTrades :: nat
  arbTrades :: nat
  instantExits :: nat

record EventTrader =
  priceHistory :: "string \<rightharpoonup> PriceHistory"
  marketPrices :: "string \<rightharpoonup> MarketPriceMap"
  assetToMarket :: "string \<rightharpoonup> MarketInfo"
  lastWhaleFollow :: "string \<rightharpoonup> int"
  enabled :: bool
  stats :: Stats

record PriceUpdate =
  pu_assetId :: string
  pu_price :: real
  pu_timestamp :: int

record TradeUpdate =
  tu_assetId :: string
  tu_price :: real
  tu_size :: real
  tu_side :: Action
  tu_timestamp :: int

text \<open>
  Whale aggregation (src/strategies/whale-tracking.ts) keeps the whale-sized trades of the
  lookback window; its per-asset activity table is recomputed from them at every
  \<open>recordTrade\<close>, so the list of trades is its state.
\<close>

definition WHALE_TRADE_MIN_SIZE :: real where
  "WHALE_TRADE_MIN_SIZE = 1000"

definition LOOKBACK_WINDOW_MS :: int where
  "LOOKBACK_WINDOW_MS = 30 * 60 * 1000"

definition whale_recordTrade :: "int \<Rightarrow> TradeUpdate \<Rightarrow> TradeUpdate list \<Rightarrow> TradeUpdate list" where
  "whale_recordTrade now trade ts =
     (if tu_size trade < WHALE_TRADE_MIN_SIZE then ts
      else filter (\<lambda>t. tu_timestamp t \<ge> now - LOOKBACK_WINDOW_MS) (ts @ [trade]))"

text \<open>
  The reactor works on the gateway, the ledger behind it and the whale aggregation. Its
  handlers await the gateway's calls one after the other; a handler is modelled as one
  run with the gateway calls completing in turn. The clock readings of the call sites
  of \<open>Date.now()\<close> and the answers of the order client (one \<open>External\<close> for every gateway
  call of the run) are inputs. A handler returns the error that ended it, if any, the
  gateway calls it made, in order, and the new state.
\<close>

record Engine =
  reactor :: EventTrader
  system :: System
  whaleTrades :: "TradeUpdate list"

record Clock =
  at_priceDrop :: int
  at_whaleFollow :: int
  at_arbCheck :: int
  at_gateway :: int
  at_whaleCleanup :: int

record Env =
  env_cfg :: Config
  env_ext :: External
  env_clock :: Clock

datatype Call =
    CallBuy Opportunity
  | CallSell Position real
  | CallArbitrageBuy ArbMarket "ArbOutcome list" real real

definition toLowerChar :: "char \<Rightarrow> char" where
  "toLowerChar c =
     (case c of
        Char b0 b1 b2 b3 b4 b5 b6 b7 \<Rightarrow>
          if 65 \<le> (of_char c :: nat) \<and> (of_char c :: nat) \<le> 90
          then Char b0 b1 b2 b3 b4 True b6 b7 else c)"

definition toLowerCase :: "string \<Rightarrow> string" where
  "toLowerCase s = map toLowerChar s"

fun includesStr :: "string \<Rightarrow> string \<Rightarrow> bool" where
  "includesStr [] sub = (sub = [])"
| "includesStr (c # cs) sub = (take (length sub) (c # cs) = sub \<or> includesStr cs sub)"

text \<open>\<open>outcome.name.toLowerCase().includes('yes') ? 'YES' : 'NO'\<close>, on ASCII names.\<close>

definition sideOfOutcome :: "Outcome \<Rightarrow> Side" where
  "sideOfOutcome outcome = (if includesStr (toLowerCase (o_name outcome)) ''yes'' then YES else NO)"

text \<open>\<open>xs.slice(-n)\<close>: the last \<open>n\<close> elements.\<close>

definition sliceLast :: "nat \<Rightarrow> 'a list \<Rightarrow> 'a list" where
  "sliceLast n xs = drop (length xs - n) xs"

fun registerOutcomes ::
  "Market \<Rightarrow> nat \<Rightarrow> Outcome list \<Rightarrow> (string \<rightharpoonup> MarketInfo) \<Rightarrow> OutcomePrice list
     \<Rightarrow> (string \<rightharpoonup> MarketInfo) \<times> OutcomePrice list" where
  "registerOutcomes market i [] a2m acc = (a2m, acc)"
| "registerOutcomes market i (outcome # rest) a2m acc =
     (if o_tokenId outcome \<noteq> [] then
        registerOutcomes market (Suc i) rest
          (a2m(o_tokenId outcome \<mapsto> \<lparr>mi_market = market, mi_outcomeIndex = i\<rparr>))
          (acc @ [\<lparr>op_assetId = o_tokenId outcome, op_price = o_price outcome,
                    op_name = o_name outcome\<rparr>])
      else registerOutcomes market (Suc i) rest a2m acc)"

fun registerLoop :: "Market list \<Rightarrow> EventTrader \<Rightarrow> EventTrader" where
  "registerLoop [] t = t"
| "registerLoop (market # rest) t =
     (let (a2m, ops) = registerOutcomes market 0 (m_outcomes market) (assetToMarket t) [];
          priceMap = \<lparr>mp_marketId = m_id market, mp_outcomes = ops, lastArbCheck = 0\<rparr>
      in registerLoop rest
           (t\<lparr>assetToMarket := a2m,
              marketPrices := (marketPrices t)(m_id market \<mapsto> priceMap)\<rparr>))"

definition registerMarkets :: "Market list \<Rightarrow> EventTrader \<Rightarrow> EventTrader" where
  "registerMarkets markets t =
     registerLoop markets (t\<lparr>assetToMarket := Map.empty, marketPrices := Map.empty\<rparr>)"

text \<open>The gateway calls of the reactor, on the engine.\<close>

definition gwBuy ::
  "Env \<Rightarrow> Opportunity \<Rightarrow> Engine \<Rightarrow> (error + Position option) \<times> Engine" where
  "gwBuy env opportunity e =
     (let (r, s) = executeBuy (env_cfg env) (env_ext env) (at_gateway (env_clock env))
                     opportunity (system e)
      in (r, e\<lparr>system := s\<rparr>))"

definition gwSell :: "Env \<Rightarrow> Position \<Rightarrow> real \<Rightarrow> Engine \<Rightarrow> (error + Trade option) \<times> Engine" where
  "gwSell env position price e =
     (let (r, s) = executeSell (env_ext env) position price (system e)
      in (r, e\<lparr>system := s\<rparr>))"

definition gwArbitrageBuy ::
  "Env \<Rightarrow> ArbMarket \<Rightarrow> ArbOutcome list \<Rightarrow> real \<Rightarrow> real \<Rightarrow> Engine
     \<Rightarrow> (error + Position list) \<times> Engine" where
  "gwArbitrageBuy env market outcomes tc gp e =
     (let (r, s) = executeArbitrageBuy (env_cfg env) (env_ext env) market outcomes tc gp
                     (system e)
      in (r, e\<lparr>system := s\<rparr>))"

definition updStats :: "(Stats \<Rightarrow> Stats) \<Rightarrow> Engine \<Rightarrow> Engine" where
  "updStats f e = e\<lparr>reactor := (reactor e)\<lparr>stats := f (stats (reactor e))\<rparr>\<rparr>"

definition meanPrice :: "PricePoint list \<Rightarrow> real" where
  "meanPrice ps = foldl (\<lambda>s p. s + pp_price p) 0 ps / real (length ps)"

text \<open>
  \<open>handlePriceDrop\<close> and \<open>handleWhaleTrade\<close> first decide whether there is a signal (every
  \<open>return\<close> before the opportunity is built is \<open>Inr None\<close>; reading the name of an outcome
  that does not exist throws) and then pass the opportunity to the gateway. The two
  parts are written as two definitions.
\<close>

definition priceDropSignal ::
  "Env \<Rightarrow> string \<Rightarrow> real \<Rightarrow> Engine \<Rightarrow> error + Opportunity option" where
  "priceDropSignal env assetId currentPrice e =
     (let history = priceHistory (reactor e) assetId;
          now = at_priceDrop (env_clock env)
      in if (case history of None \<Rightarrow> False
                           | Some h \<Rightarrow> now - lastTradeTime h < PRICE_TRADE_COOLDOWN)
         then Inr None
      else
        case assetToMarket (reactor e) assetId of
          None \<Rightarrow> Inr None
        | Some marketInfo \<Rightarrow>
            let market = mi_market marketInfo; outcomeIndex = mi_outcomeIndex marketInfo in
            if currentPrice < 5 / 100 \<or> currentPrice > 95 / 100 then Inr None
            else if m_liquidity market < minMarketLiquidity (env_cfg env) then Inr None
            else
              let recentPrices = (case history of None \<Rightarrow> []
                                                | Some h \<Rightarrow> sliceLast 10 (prices h))
              in if length recentPrices < 3 then Inr None
              else
                let mean = meanPrice recentPrices;
                    deviation = currentPrice - mean
                in if deviation > - (3 / 100) then Inr None
                else
                  let estimatedProb = min (9 / 10) (mean + 2 / 100);
                      edge = estimatedProb - currentPrice
                  in if edge < 3 / 100 then Inr None
                  else if \<not> outcomeIndex < length (m_outcomes market) then Inl TypeError
                  else
                    Inr (Some
                      \<lparr>opp_market = market, opp_strategy = Value,
                       opp_side = sideOfOutcome (m_outcomes market ! outcomeIndex),
                       opp_outcomeIndex = outcomeIndex, opp_entryPrice = currentPrice,
                       opp_estimatedProb = estimatedProb, opp_edge = edge,
                       opp_confidence = (if edge \<ge> 8 / 100 then High else Standard)\<rparr>))"

definition handlePriceDrop ::
  "Env \<Rightarrow> string \<Rightarrow> real \<Rightarrow> real \<Rightarrow> real \<Rightarrow> Engine \<Rightarrow> error option \<times> Call list \<times> Engine" where
  "handlePriceDrop env assetId currentPrice previousPrice priceChange e =
     (case priceDropSignal env assetId currentPrice e of
        Inl err \<Rightarrow> (Some err, [], e)
      | Inr None \<Rightarrow> (None, [], e)
      | Inr (Some opportunity) \<Rightarrow>
          (case gwBuy env opportunity e of
             (Inl err, e1) \<Rightarrow> (Some err, [CallBuy opportunity], e1)
           | (Inr None, e1) \<Rightarrow> (None, [CallBuy opportunity], e1)
           | (Inr (Some position), e1) \<Rightarrow>
               (None, [CallBuy opportunity],
                updStats (\<lambda>st. st\<lparr>priceDropTrades := Suc (priceDropTrades st)\<rparr>)
                  (e1\<lparr>reactor := (reactor e1)
                       \<lparr>priceHistory :=
                          (case priceHistory (reactor e1) assetId of
                             None \<Rightarrow> priceHistory (reactor e1)
                           | Some h \<Rightarrow>
                               (priceHistory (reactor e1))
                                 (assetId \<mapsto>
                                    h\<lparr>lastTradeTime := at_priceDrop (env_clock env)\<rparr>))\<rparr>\<rparr>))))"

definition whaleSignal ::
  "Env \<Rightarrow> string \<Rightarrow> real \<Rightarrow> real \<Rightarrow> Engine \<Rightarrow> error + Opportunity option" where
  "whaleSignal env assetId price sz e =
     (let now = at_whaleFollow (env_clock env);
          lastFollow = (case lastWhaleFollow (reactor e) assetId of None \<Rightarrow> 0 | Some t \<Rightarrow> t)
      in if now - lastFollow < WHALE_TRADE_COOLDOWN then Inr None
      else
        case assetToMarket (reactor e) assetId of
          None \<Rightarrow> Inr None
        | Some marketInfo \<Rightarrow>
            let market = mi_market marketInfo; outcomeIndex = mi_outcomeIndex marketInfo in
            if price < 5 / 100 \<or> price > 95 / 100 then Inr None
            else if m_liquidity market < minMarketLiquidity (env_cfg env) then Inr None
            else if \<not> outcomeIndex < length (m_outcomes market) then Inl TypeError
            else
              let estimatedProb = min (95 / 100) (price + 8 / 100);
                  edge = estimatedProb - price
              in Inr (Some
                   \<lparr>opp_market = market, opp_strategy = Whale,
                    opp_side = sideOfOutcome (m_outcomes market ! outcomeIndex),
                    opp_outcomeIndex = outcomeIndex, opp_entryPrice = price,
                    opp_estimatedProb = estimatedProb, opp_edge = edge,
                    opp_confidence = (if sz \<ge> 10000 then High else Standard)\<rparr>))"

definition handleWhaleTrade ::
  "Env \<Rightarrow> string \<Rightarrow> real \<Rightarrow> real \<Rightarrow> Engine \<Rightarrow> error option \<times> Call list \<times> Engine" where
  "handleWhaleTrade env assetId price sz e =
     (case whaleSignal env assetId price sz e of
        Inl err \<Rightarrow> (Some err, [], e)
      | Inr None \<Rightarrow> (None, [], e)
      | Inr (Some opportunity) \<Rightarrow>
          (case gwBuy env opportunity e of
             (Inl err, e1) \<Rightarrow> (Some err, [CallBuy opportunity], e1)
           | (Inr None, e1) \<Rightarrow> (None, [CallBuy opportunity], e1)
           | (Inr (Some position), e1) \<Rightarrow>
               (None, [CallBuy opportunity],
                updStats (\<lambda>st. st\<lparr>whaleFollowTrades := Suc (whaleFollowTrades st)\<rparr>)
                  (e1\<lparr>reactor := (reactor e1)
                       \<lparr>lastWhaleFollow :=
                          (lastWhaleFollow (reactor e1))
                            (assetId \<mapsto> at_whaleFollow (env_clock env))\<rparr>\<rparr>))))"

definition sumOutcomePrices :: "OutcomePrice list \<Rightarrow> real" where
  "sumOutcomePrices ops = foldl (\<lambda>s oc. s + op_price oc) 0 ops"

definition checkArbSpread :: "Env \<Rightarrow> Market \<Rightarrow> Engine \<Rightarrow> error option \<times> Call list \<times> Engine" where
  "checkArbSpread env market e =
     (case marketPrices (reactor e) (m_id market) of
        None \<Rightarrow> (None, [], e)
      | Some priceMap \<Rightarrow>
          let now = at_arbCheck (env_clock env) in
          if now - lastArbCheck priceMap < ARB_CHECK_COOLDOWN then (None, [], e)
          else
            let e0 = e\<lparr>reactor := (reactor e)
                        \<lparr>marketPrices :=
                           (marketPrices (reactor e))
                             (m_id market \<mapsto> priceMap\<lparr>lastArbCheck := now\<rparr>)\<rparr>\<rparr>
            in if length (mp_outcomes priceMap) \<noteq> 2 then (None, [], e0)
            else
              let totalPrice = sumOutcomePrices (mp_outcomes priceMap) in
              if totalPrice < ARB_SPREAD_THRESHOLD \<and> totalPrice > 8 / 10 then
                let profit = 1 - totalPrice;
                    profitPercent = profit / totalPrice
                in if profitPercent < 1 / 100 then (None, [], e0)
                else if \<not> list_all (\<lambda>oc. op_price oc > 2 / 100 \<and> op_price oc < 98 / 100)
                             (mp_outcomes priceMap)
                then (None, [], e0)
                else
                  let outcomes =
                        map (\<lambda>oc. \<lparr>ao_name = op_name oc, ao_price = op_price oc,
                                    ao_tokenId = op_assetId oc\<rparr>) (mp_outcomes priceMap);
                      am = \<lparr>am_id = m_id market, am_question = m_question market,
                            am_category = m_category market\<rparr>;
                      call = CallArbitrageBuy am outcomes totalPrice profit
                  in case gwArbitrageBuy env am outcomes totalPrice profit e0 of
                       (Inl err, e1) \<Rightarrow> (Some err, [call], e1)
                     | (Inr created, e1) \<Rightarrow>
                         (None, [call],
                          if length created > 0
                          then updStats (\<lambda>st. st\<lparr>arbTrades := Suc (arbTrades st)\<rparr>) e1
                          else e1)
              else (None, [], e0))"

text \<open>
  The loop of \<open>checkInstantExit\<close> over the open positions read when it starts. For an
  entry price of 0 the source's \<open>pnlPercent\<close> is \<open>Infinity\<close> for a positive current price
  (and \<open>NaN\<close> or \<open>-Infinity\<close> otherwise).
\<close>

fun instantExitLoop ::
  "Env \<Rightarrow> string \<Rightarrow> real \<Rightarrow> Position list \<Rightarrow> Call list \<Rightarrow> Engine
     \<Rightarrow> error option \<times> Call list \<times> Engine" where
  "instantExitLoop env assetId currentPrice [] calls e = (None, calls, e)"
| "instantExitLoop env assetId currentPrice (position # rest) calls e =
     (if p_outcomeId position \<noteq> assetId
      then instantExitLoop env assetId currentPrice rest calls e
      else
        let pnlPercent =
              ((currentPrice - p_entryPrice position) / p_entryPrice position) * 100;
            takeProfit =
              (if p_entryPrice position = 0 then currentPrice > 0 else pnlPercent \<ge> 15);
            shouldExit =
              (takeProfit \<or> currentPrice \<ge> 97 / 100 \<or> currentPrice \<le> 3 / 100)
        in if shouldExit then
             (case gwSell env position currentPrice e of
                (Inl err, e1) \<Rightarrow> (Some err, calls @ [CallSell position currentPrice], e1)
              | (Inr None, e1) \<Rightarrow>
                  instantExitLoop env assetId currentPrice rest
                    (calls @ [CallSell position currentPrice]) e1
              | (Inr (Some trade), e1) \<Rightarrow>
                  instantExitLoop env assetId currentPrice rest
                    (calls @ [CallSell position currentPrice])
                    (updStats (\<lambda>st. st\<lparr>instantExits := Suc (instantExits st)\<rparr>) e1))
           else instantExitLoop env assetId currentPrice rest calls e)"

definition checkInstantExit ::
  "Env \<Rightarrow> string \<Rightarrow> real \<Rightarrow> Engine \<Rightarrow> error option \<times> Call list \<times> Engine" where
  "checkInstantExit env assetId currentPrice e =
     instantExitLoop env assetId currentPrice (getOpenPositions (store (system e))) [] e"

text \<open>The bookkeeping of \<open>handlePriceUpdate\<close>: the price history and the market price map.\<close>

definition recordPrice :: "PriceUpdate \<Rightarrow> EventTrader \<Rightarrow> EventTrader" where
  "recordPrice update t =
     (let assetId = pu_assetId update;
          history = (case priceHistory t assetId of
                       None \<Rightarrow> \<lparr>prices = [], lastTradeTime = 0\<rparr>
                     | Some h \<Rightarrow> h);
          pushed = prices history
                     @ [\<lparr>pp_price = pu_price update, pp_timestamp = pu_timestamp update\<rparr>];
          kept = (if length pushed > 20 then sliceLast 20 pushed else pushed);
          t1 = t\<lparr>priceHistory := (priceHistory t)(assetId \<mapsto> history\<lparr>prices := kept\<rparr>)\<rparr>
      in case assetToMarket t1 assetId of
           None \<Rightarrow> t1
         | Some marketInfo \<Rightarrow>
             (case marketPrices t1 (m_id (mi_market marketInfo)) of
                None \<Rightarrow> t1
              | Some priceMap \<Rightarrow>
                  (case find (\<lambda>oc. op_assetId oc = assetId) (mp_outcomes priceMap) of
                     None \<Rightarrow> t1
                   | Some outcomePrice \<Rightarrow>
                       t1\<lparr>marketPrices :=
                            (marketPrices t1)
                              (m_id (mi_market marketInfo) \<mapsto>
                                 priceMap\<lparr>mp_outcomes :=
                                   list_update (mp_outcomes priceMap)
                                     (length (takeWhile (\<lambda>oc. op_assetId oc \<noteq> assetId)
                                                (mp_outcomes priceMap)))
                                     (outcomePrice\<lparr>op_price := pu_price update\<rparr>)\<rparr>)\<rparr>)))"

text \<open>
  \<open>lastPrice\<close> is the price of the last point before the push; \<open>lastPrice && lastPrice > 0\<close>
  holds when there is such a point and its price is positive.
\<close>

definition lastPriceOf :: "EventTrader \<Rightarrow> string \<Rightarrow> real option" where
  "lastPriceOf t assetId =
     (case priceHistory t assetId of
        None \<Rightarrow> None
      | Some h \<Rightarrow> (if prices h = [] then None else Some (pp_price (last (prices h)))))"

text \<open>
  The signal checks of \<open>handlePriceUpdate\<close> on the price change against the last point
  (the block under \<open>if (lastPrice && lastPrice > 0)\<close>), as a definition of its own.
\<close>

definition priceSignals ::
  "Env \<Rightarrow> string \<Rightarrow> real \<Rightarrow> real option \<Rightarrow> Engine \<Rightarrow> error option \<times> Call list \<times> Engine" where
  "priceSignals env assetId price lastPrice e1 =
     (case lastPrice of
        None \<Rightarrow> (None, [], e1)
      | Some lp \<Rightarrow>
          if lp > 0 then
            let priceChange = (price - lp) / lp;
                (errA, callsA, eA) =
                  (if priceChange \<le> - PRICE_DROP_THRESHOLD
                   then handlePriceDrop env assetId price lp priceChange e1
                   else (None, [], e1))
            in if errA \<noteq> None then (errA, callsA, eA)
               else if priceChange \<ge> PRICE_SPIKE_THRESHOLD then
                 (let (errB, callsB, eB) = checkInstantExit env assetId price eA
                  in (errB, callsA @ callsB, eB))
               else (None, callsA, eA)
          else (None, [], e1))"

definition handlePriceUpdate ::
  "Env \<Rightarrow> PriceUpdate \<Rightarrow> Engine \<Rightarrow> error option \<times> Call list \<times> Engine" where
  "handlePriceUpdate env update e =
     (if \<not> enabled (reactor e) then (None, [], e)
      else
        let assetId = pu_assetId update;
            price = pu_price update;
            lastPrice = lastPriceOf (reactor e) assetId;
            e1 = e\<lparr>reactor := recordPrice update (reactor e)\<rparr>;
            marketInfo = assetToMarket (reactor e1) assetId;
            (err2, calls2, e2) = priceSignals env assetId price lastPrice e1
        in if err2 \<noteq> None then (err2, calls2, e2)
           else
             case marketInfo of
               None \<Rightarrow> (None, calls2, e2)
             | Some info \<Rightarrow>
                 (let (err3, calls3, e3) = checkArbSpread env (mi_market info) e2
                  in (err3, calls2 @ calls3, e3)))"

definition handleTradeUpdate ::
  "Env \<Rightarrow> TradeUpdate \<Rightarrow> Engine \<Rightarrow> error option \<times> Call list \<times> Engine" where
  "handleTradeUpdate env update e =
     (if \<not> enabled (reactor e) then (None, [], e)
      else
        let e1 = (if tu_size update \<ge> 1000
                  then e\<lparr>whaleTrades :=
                           whale_recordTrade (at_whaleCleanup (env_clock env)) update
                             (whaleTrades e)\<rparr>
                  else e)
        in if tu_size update \<ge> WHALE_INSTANT_THRESHOLD \<and> tu_side update = BUY
           then handleWhaleTrade env (tu_assetId update) (tu_price update) (tu_size update) e1
           else (None, [], e1))"

definition enable :: "EventTrader \<Rightarrow> EventTrader" where
  "enable t = t\<lparr>enabled := True\<rparr>"

definition disable :: "EventTrader \<Rightarrow> EventTrader" where
  "disable t = t\<lparr>enabled := False\<rparr>"

definition clearHistory :: "EventTrader \<Rightarrow> EventTrader" where
  "clearHistory t = t\<lparr>priceHistory := Map.empty, lastWhaleFollow := Map.empty\<rparr>"


text \<open>
  Two engine states with the same books: the same market price maps, asset index,
  enabled flag and whale trades, and the same recorded prices for every asset.
\<close>

definition sameBook :: "Engine \<Rightarrow> Engine \<Rightarrow> bool" where
  "sameBook e e' =
     (marketPrices (reactor e') = marketPrices (reactor e)
      \<and> assetToMarket (reactor e') = assetToMarket (reactor e)
      \<and> enabled (reactor e') = enabled (reactor e)
      \<and> whaleTrades e' = whaleTrades e
      \<and> (\<forall>x. map_option prices (priceHistory (reactor e') x)
               = map_option prices (priceHistory (reactor e) x)))"

section \<open>Concrete inputs\<close>

text \<open>Small concrete states on which the theorems below are instantiated.\<close>

definition exampleUuid :: "nat \<Rightarrow> string" where
  "exampleUuid n = ''uuid-'' @ replicate n (CHR ''x'')"

definition exampleRow :: PositionRow where
  "exampleRow =
     \<lparr>row_id = ''p1'', row_market_id = ''m1'', row_market_question = ''Q'',
      row_category = Politics, row_strategy = Value, row_side = YES,
      row_outcome_id = ''tok-yes'', row_entry_price = 1 / 2, row_current_price = 1 / 2,
      row_size = 499 / 10, row_cost = 50, row_shares = 100, row_exit_price = None,
      row_pnl = 0, row_status = Open\<rparr>"

text \<open>The allocations table as \<open>initializeAllocations\<close> fills it from the default weights.\<close>

definition initialAllocations :: "StrategyAllocation list" where
  "initialAllocations =
     map (\<lambda>(s, w). \<lparr>a_strategy = s, a_currentWeight = w, a_minWeight = 5 / 100,
                     a_maxWeight = 40 / 100, a_performanceScore = 0\<rparr>)
       [(Arbitrage, 30 / 100), (Value, 30 / 100), (Whale, 20 / 100), (Momentum, 15 / 100),
        (Mean_reversion, 5 / 100)]"

definition exampleStore :: Store where
  "exampleStore =
     \<lparr>positions = [exampleRow], trades = [], snapshots = [], allocations = initialAllocations,
      uuid = exampleUuid, uuid_next = 0\<rparr>"

definition exampleMarket :: Market where
  "exampleMarket =
     \<lparr>m_id = ''m1'', m_question = ''Q'', m_category = Politics,
      m_outcomes =
        [\<lparr>o_id = ''tok-yes'', o_name = ''Yes'', o_price = 40 / 100, o_tokenId = ''tok-yes''\<rparr>,
         \<lparr>o_id = ''tok-no'', o_name = ''No'', o_price = 55 / 100, o_tokenId = ''tok-no''\<rparr>],
      m_volume = 50000, m_liquidity = 20000\<rparr>"

definition staleMarket :: Market where
  "staleMarket =
     \<lparr>m_id = ''m2'', m_question = ''R'', m_category = Sports,
      m_outcomes =
        [\<lparr>o_id = ''tok-a'', o_name = ''Up'', o_price = 30 / 100, o_tokenId = ''tok-a''\<rparr>,
         \<lparr>o_id = ''tok-b'', o_name = ''Down'', o_price = 40 / 100, o_tokenId = ''tok-b''\<rparr>],
      m_volume = 50000, m_liquidity = 20000\<rparr>"

definition emptyStore :: Store where
  "emptyStore =
     \<lparr>positions = [], trades = [], snapshots = [], allocations = initialAllocations,
      uuid = exampleUuid, uuid_next = 0\<rparr>"

definition freshPaper :: PaperExecutor where
  "freshPaper =
     \<lparr>balance = 1000, peakValue = 1000, startingBalance = 1000, sellingPositions = {}\<rparr>"

definition idleReal :: RealExecutor where
  "idleReal =
     \<lparr>initialized = False, realBalance = 0, r_peakValue = 1000, r_startingBalance = 1000\<rparr>"

definition noExternal :: External where
  "noExternal = \<lparr>ext_order = (\<lambda>k. Rejects), ext_balance = Rejects\<rparr>"

definition paperSystem :: System where
  "paperSystem =
     \<lparr>mode = PaperMode, pendingBuys = Map.empty, pendingSells = {}, paperEx = freshPaper,
      realEx = idleReal, store = emptyStore\<rparr>"



definition exampleOpp :: Opportunity where
  "exampleOpp =
     \<lparr>opp_market = exampleMarket, opp_strategy = Value, opp_side = YES, opp_outcomeIndex = 0,
      opp_entryPrice = 40 / 100, opp_estimatedProb = 50 / 100, opp_edge = 10 / 100,
      opp_confidence = Standard\<rparr>"

text \<open>
  A paper system as it comes up after a restart: the ledger holds one open position on
  (m1, YES), the in-memory pending maps are empty.
\<close>

definition examplePosition :: Position where
  "examplePosition = rowToPosition exampleRow"

definition restartedPaper :: PaperExecutor where
  "restartedPaper =
     \<lparr>balance = 950, peakValue = 1000, startingBalance = 1000, sellingPositions = {}\<rparr>"

definition restartedSystem :: System where
  "restartedSystem =
     \<lparr>mode = PaperMode, pendingBuys = Map.empty, pendingSells = {}, paperEx = restartedPaper,
      realEx = idleReal, store = exampleStore\<rparr>"

definition afterFirstBuy :: System where
  "afterFirstBuy = snd (executeBuy defaultConfig noExternal 1000 exampleOpp restartedSystem)"

definition afterSell :: System where
  "afterSell = snd (executeSell noExternal examplePosition (60 / 100) afterFirstBuy)"

text \<open>A real system with the same ledger, and an order client whose orders come back unfilled.\<close>

definition liveReal :: RealExecutor where
  "liveReal =
     \<lparr>initialized = True, realBalance = 950, r_peakValue = 1000, r_startingBalance = 1000\<rparr>"

definition realSystem :: System where
  "realSystem =
     \<lparr>mode = RealMode, pendingBuys = Map.empty, pendingSells = {}, paperEx = restartedPaper,
      realEx = liveReal, store = exampleStore\<rparr>"

definition unfilledExternal :: External where
  "unfilledExternal =
     \<lparr>ext_order = (\<lambda>k. Resolves \<lparr>statusFilled = False, filledAmount = 0, avgFillPrice = 0\<rparr>),
      ext_balance = Resolves 950\<rparr>"

text \<open>The fresh paper system after one buy at time 1000, and after selling what it bought.\<close>

definition boughtSystem :: System where
  "boughtSystem = snd (executeBuy defaultConfig noExternal 1000 exampleOpp paperSystem)"

definition boughtPosition :: Position where
  "boughtPosition =
     (case fst (executeBuy defaultConfig noExternal 1000 exampleOpp paperSystem) of
        Inr (Some p) \<Rightarrow> p | other \<Rightarrow> examplePosition)"

definition soldSystem :: System where
  "soldSystem = snd (executeSell noExternal boughtPosition (60 / 100) boughtSystem)"

text \<open>
  A real adapter 20 percent below its peak (cash 1000, peak 1250, nothing held), and one
  26 percent below it (cash 740, peak 1000).
\<close>

definition drawnReal :: RealExecutor where
  "drawnReal =
     \<lparr>initialized = True, realBalance = 1000, r_peakValue = 1250, r_startingBalance = 1250\<rparr>"

definition haltedReal :: RealExecutor where
  "haltedReal =
     \<lparr>initialized = True, realBalance = 740, r_peakValue = 1000, r_startingBalance = 1000\<rparr>"

text \<open>
  A paper executor which, on the ledger \<open>exampleStore\<close> (one open position worth 50), has a
  total value of 740 against a peak of 1000; and one on the empty ledger 20 percent below
  its peak.
\<close>

definition haltedPaper :: PaperExecutor where
  "haltedPaper =
     \<lparr>balance = 690, peakValue = 1000, startingBalance = 1000, sellingPositions = {}\<rparr>"

definition drawnPaper :: PaperExecutor where
  "drawnPaper =
     \<lparr>balance = 800, peakValue = 1000, startingBalance = 1000, sellingPositions = {}\<rparr>"

definition drawnPortfolio :: Portfolio where
  "drawnPortfolio = fst (projr (real_getPortfolio 1000 0 drawnReal emptyStore))"

definition haltedPortfolio :: Portfolio where
  "haltedPortfolio = fst (projr (real_getPortfolio 740 0 haltedReal emptyStore))"

definition filledExternal :: External where
  "filledExternal =
     \<lparr>ext_order = (\<lambda>k. Resolves \<lparr>statusFilled = True, filledAmount = 100,
                                     avgFillPrice = 58 / 100\<rparr>),
      ext_balance = Resolves 798\<rparr>"

text \<open>
  A reactor with the example market registered, on the fresh paper system; one price
  notification that brings the summed price of the market to 0.97999 and one that brings
  it to 0.98; a whale-sized trade notification.
\<close>

definition freshTrader :: EventTrader where
  "freshTrader =
     \<lparr>priceHistory = Map.empty, marketPrices = Map.empty, assetToMarket = Map.empty,
      lastWhaleFollow = Map.empty, enabled = True,
      stats = \<lparr>priceDropTrades = 0, whaleFollowTrades = 0, arbTrades = 0, instantExits = 0\<rparr>\<rparr>"

definition exampleEngine :: Engine where
  "exampleEngine =
     \<lparr>reactor = registerMarkets [exampleMarket] freshTrader, system = paperSystem,
      whaleTrades = []\<rparr>"

definition disabledEngine :: Engine where
  "disabledEngine = exampleEngine\<lparr>reactor := disable (reactor exampleEngine)\<rparr>"

definition exampleEnv :: Env where
  "exampleEnv =
     \<lparr>env_cfg = defaultConfig, env_ext = noExternal,
      env_clock = \<lparr>at_priceDrop = 1000000, at_whaleFollow = 1000000, at_arbCheck = 1000000,
                   at_gateway = 1000000, at_whaleCleanup = 1000000\<rparr>\<rparr>"

definition includedUpdate :: PriceUpdate where
  "includedUpdate =
     \<lparr>pu_assetId = ''tok-no'', pu_price = 57999 / 100000, pu_timestamp = 999000\<rparr>"


definition whaleUpdate :: TradeUpdate where
  "whaleUpdate =
     \<lparr>tu_assetId = ''tok-no'', tu_price = 55 / 100, tu_size = 2000, tu_side = SELL,
      tu_timestamp = 999000\<rparr>"

section \<open>Properties of the ledger\<close>






lemma rowToPosition_status [simp]: "p_status (rowToPosition r) = row_status r"
  by (simp add: rowToPosition_def Let_def)

lemma rowToPosition_shares [simp]: "p_shares (rowToPosition r) = row_shares r"
  by (simp add: rowToPosition_def Let_def)

lemma rowToPosition_id [simp]: "p_id (rowToPosition r) = row_id r"
  by (simp add: rowToPosition_def Let_def)








section \<open>Open positions under the ledger and gateway operations\<close>

lemma positionKey_row [simp]:
  "positionKey (rowToPosition r) = (row_market_id r, row_side r)"
  by (simp add: positionKey_def rowToPosition_def Let_def)

lemma openKeys_rows:
  "openKeys st = map (\<lambda>r. (row_market_id r, row_side r))
                   (filter (\<lambda>r. row_status r = Open) (positions st))"
  by (simp add: openKeys_def getOpenPositions_def comp_def)

lemma oneOpenPerKey_openKeys: "oneOpenPerKey st = distinct (openKeys st)"
  by (simp add: oneOpenPerKey_def openKeys_def)




lemma savePortfolioSnapshot_openKeys [simp]:
  "openKeys (savePortfolioSnapshot st pf) = openKeys st"
  by (simp add: openKeys_rows savePortfolioSnapshot_def)




lemma filter_open_price:
  "map (\<lambda>r. (row_market_id r, row_side r))
     (filter (\<lambda>r. row_status r = Open)
        (map (\<lambda>r. if row_id r = i then r\<lparr>row_current_price := c, row_pnl := v\<rparr> else r) rows))
   = map (\<lambda>r. (row_market_id r, row_side r)) (filter (\<lambda>r. row_status r = Open) rows)"
  by (induction rows) auto

lemma updatePositionPrice_openKeys [simp]:
  "openKeys (updatePositionPrice st i price) = openKeys st"
  by (simp add: updatePositionPrice_def Let_def openKeys_rows updateRows_def filter_open_price
      split: option.splits)



lemma real_executeBuy_no_throw:
  "fst (real_executeBuy cfg ext opp re st) \<noteq> Inl e"
  by (auto simp: real_executeBuy_def Let_def
      split: prod.splits if_splits sum.splits Response.splits)




lemma executeBuy_exit_store [simp]: "store (snd (executeBuy_exit opp r s)) = store s"
  by (simp add: executeBuy_exit_def split: sum.splits)








section \<open>At most one open position per market and side\<close>




section \<open>Arbitrage scan\<close>

lemma foldl_add_prices:
  "foldl (\<lambda>s oc. s + o_price oc) a os = a + sum_list (map o_price os)"
  by (induction os arbitrary: a) auto

lemma sumPrices_sum_list: "sumPrices os = sum_list (map o_price os)"
  by (simp add: sumPrices_def foldl_add_prices)

lemma checkMarketForArbitrage_market:
  "checkMarketForArbitrage cfg m = Some opp \<Longrightarrow> opp_market opp = m"
  by (auto simp: checkMarketForArbitrage_def Let_def split: if_splits)

lemma filter_map_filter_market:
  "length (filter (\<lambda>oc. opp_market oc = m) (List.map_filter (checkMarketForArbitrage cfg) ms))
     = (if checkMarketForArbitrage cfg m = None then 0 else count_list ms m)"
proof (induction ms)
  case Nil
  then show ?case by (simp add: List.map_filter_simps)
next
  case (Cons a ms)
  show ?case
  proof (cases "checkMarketForArbitrage cfg a")
    case None
    then show ?thesis using Cons by (auto simp: List.map_filter_simps)
  next
    case (Some opp)
    then have "opp_market opp = a" by (rule checkMarketForArbitrage_market)
    then show ?thesis using Cons Some by (auto simp: List.map_filter_simps)
  qed
qed

lemma scan_count:
  "length (filter (\<lambda>oc. opp_market oc = m) (scan cfg ms))
     = (if checkMarketForArbitrage cfg m = None then 0 else count_list ms m)"
  unfolding scan_def filter_sort by (simp add: filter_map_filter_market)

lemma scan_market_in:
  assumes "opp \<in> set (scan cfg ms)"
  shows "checkMarketForArbitrage cfg (opp_market opp) = Some opp"
proof -
  from assms obtain m where "checkMarketForArbitrage cfg m = Some opp"
    by (auto simp: scan_def List.map_filter_def)
  then show ?thesis using checkMarketForArbitrage_market by fastforce
qed

lemma check_Some:
  assumes "2 \<le> length (m_outcomes m)"
    and "\<forall>oc \<in> set (m_outcomes m). 0 < o_price oc \<and> o_price oc < 1"
    and "minMarketLiquidity cfg \<le> m_liquidity m"
    and "S = sum_list (map o_price (m_outcomes m))"
    and "S < 1" "2 / 100 \<le> (1 - S) / S" "(1 - S) / S \<le> 15 / 100"
  shows "\<exists>opp. checkMarketForArbitrage cfg m = Some opp \<and> opp_market opp = m
           \<and> totalCost opp = S \<and> guaranteedProfit opp = 1 - S
           \<and> profitPercent opp = (1 - S) / S
           \<and> map ao_price (arb_outcomes opp) = map o_price (m_outcomes m)"
proof -
  have "\<not> list_ex (\<lambda>oc. o_price oc \<le> 0 \<or> o_price oc \<ge> 1) (m_outcomes m)"
    using assms(2) by (auto simp: list_ex_iff)
  then show ?thesis using assms
    by (simp add: checkMarketForArbitrage_def Let_def sumPrices_sum_list
        MIN_PROFIT_PCT_def MAX_PROFIT_PCT_def comp_def)
qed

lemma check_None:
  assumes "S = sum_list (map o_price (m_outcomes m))"
    and "15 / 100 < (1 - S) / S \<or> (1 - S) / S < 2 / 100 \<or> 1 \<le> S"
  shows "checkMarketForArbitrage cfg m = None"
  using assms
  by (auto simp: checkMarketForArbitrage_def Let_def sumPrices_sum_list
      MIN_PROFIT_PCT_def MAX_PROFIT_PCT_def)

text \<open>
  Claim C4. Take a market with at least two outcomes, every price strictly between 0 and 1,
  liquidity at least the configured floor, and let \<open>S\<close> be the sum of its outcome prices.
  If \<open>S < 1\<close> and the profit percentage \<open>(1 - S) / S\<close> lies in [0.02, 0.15], the strategy
  builds an opportunity for the market with \<open>totalCost = S\<close> and \<open>guaranteedProfit = 1 - S\<close>,
  and the opportunities a scan returns for that market are exactly that one, once per
  occurrence of the market in the scanned list. If the profit percentage is above 0.15 or
  below 0.02, or \<open>S\<close> is at least 1, the market yields no opportunity.
\<close>

theorem arbitrage_scan_one_opportunity:
  assumes "2 \<le> length (m_outcomes m)"
    and "\<forall>oc \<in> set (m_outcomes m). 0 < o_price oc \<and> o_price oc < 1"
    and "minMarketLiquidity cfg \<le> m_liquidity m"
    and "S = sum_list (map o_price (m_outcomes m))"
  shows "(S < 1 \<and> MIN_PROFIT_PCT \<le> (1 - S) / S \<and> (1 - S) / S \<le> MAX_PROFIT_PCT \<longrightarrow>
            (\<exists>opp. checkMarketForArbitrage cfg m = Some opp
               \<and> totalCost opp = S \<and> guaranteedProfit opp = 1 - S
               \<and> filter (\<lambda>oc. opp_market oc = m) (scan cfg ms) = replicate (count_list ms m) opp))
       \<and> (MAX_PROFIT_PCT < (1 - S) / S \<or> (1 - S) / S < MIN_PROFIT_PCT \<or> 1 \<le> S \<longrightarrow>
            checkMarketForArbitrage cfg m = None
            \<and> filter (\<lambda>oc. opp_market oc = m) (scan cfg ms) = [])"
proof (intro conjI impI)
  assume a: "S < 1 \<and> MIN_PROFIT_PCT \<le> (1 - S) / S \<and> (1 - S) / S \<le> MAX_PROFIT_PCT"
  then obtain opp where opp: "checkMarketForArbitrage cfg m = Some opp"
    "totalCost opp = S" "guaranteedProfit opp = 1 - S"
    using check_Some [OF assms, of ] by (auto simp: MIN_PROFIT_PCT_def MAX_PROFIT_PCT_def)
  have len: "length (filter (\<lambda>oc. opp_market oc = m) (scan cfg ms)) = count_list ms m"
    using opp by (simp add: scan_count)
  have all: "\<forall>x \<in> set (filter (\<lambda>oc. opp_market oc = m) (scan cfg ms)). x = opp"
    using scan_market_in [of _ cfg ms] opp by auto
  have "filter (\<lambda>oc. opp_market oc = m) (scan cfg ms) = replicate (count_list ms m) opp"
    using len all by (metis replicate_length_same)
  then show "\<exists>opp. checkMarketForArbitrage cfg m = Some opp
               \<and> totalCost opp = S \<and> guaranteedProfit opp = 1 - S
               \<and> filter (\<lambda>oc. opp_market oc = m) (scan cfg ms) = replicate (count_list ms m) opp"
    using opp by blast
next
  assume b: "MAX_PROFIT_PCT < (1 - S) / S \<or> (1 - S) / S < MIN_PROFIT_PCT \<or> 1 \<le> S"
  then show n: "checkMarketForArbitrage cfg m = None"
    using check_None [OF assms(4), of cfg] by (auto simp: MIN_PROFIT_PCT_def MAX_PROFIT_PCT_def)
  have "length (filter (\<lambda>oc. opp_market oc = m) (scan cfg ms)) = 0"
    using n by (simp add: scan_count)
  then show "filter (\<lambda>oc. opp_market oc = m) (scan cfg ms) = []" by simp
qed

theorem arbitrage_scan_one_opportunity_witness:
  "(\<exists>opp. checkMarketForArbitrage defaultConfig exampleMarket = Some opp
       \<and> totalCost opp = 95 / 100 \<and> guaranteedProfit opp = 5 / 100
       \<and> filter (\<lambda>oc. opp_market oc = exampleMarket) (scan defaultConfig [staleMarket, exampleMarket])
           = [opp])
   \<and> checkMarketForArbitrage defaultConfig staleMarket = None
   \<and> filter (\<lambda>oc. opp_market oc = staleMarket) (scan defaultConfig [staleMarket, exampleMarket]) = []"
proof -
  have ne: "staleMarket \<noteq> exampleMarket"
    by (simp add: staleMarket_def exampleMarket_def)
  have a: "(\<exists>opp. checkMarketForArbitrage defaultConfig exampleMarket = Some opp
       \<and> totalCost opp = 95 / 100 \<and> guaranteedProfit opp = 5 / 100
       \<and> filter (\<lambda>oc. opp_market oc = exampleMarket) (scan defaultConfig [staleMarket, exampleMarket])
           = [opp])"
    using arbitrage_scan_one_opportunity
      [of exampleMarket defaultConfig "95 / 100" "[staleMarket, exampleMarket]"] ne
    by (simp add: exampleMarket_def defaultConfig_def MIN_PROFIT_PCT_def MAX_PROFIT_PCT_def)
  have b: "checkMarketForArbitrage defaultConfig staleMarket = None
   \<and> filter (\<lambda>oc. opp_market oc = staleMarket) (scan defaultConfig [staleMarket, exampleMarket]) = []"
    using arbitrage_scan_one_opportunity
      [of staleMarket defaultConfig "70 / 100" "[staleMarket, exampleMarket]"]
    by (simp add: staleMarket_def defaultConfig_def MIN_PROFIT_PCT_def MAX_PROFIT_PCT_def)
  from a b show ?thesis by blast
qed

section \<open>Buy deduplication\<close>

lemma dispatchBuy_pendingBuys [simp]:
  "pendingBuys (snd (dispatchBuy cfg ext opp s)) = pendingBuys s"
  by (simp add: dispatchBuy_def split_beta split: Mode.splits)

lemma dispatchSell_pendingSells [simp]:
  "pendingSells (snd (dispatchSell ext pos price s)) = pendingSells s"
  by (simp add: dispatchSell_def split_beta split: Mode.splits)

lemma dispatchSell_pendingBuys [simp]:
  "pendingBuys (snd (dispatchSell ext pos price s)) = pendingBuys s"
  by (simp add: dispatchSell_def split_beta split: Mode.splits)

lemma executeSell_pendingBuys [simp]:
  "pendingBuys (snd (executeSell ext pos price s)) = pendingBuys s"
  by (simp add: executeSell_def executeSell_enter_def executeSell_exit_def split_beta)

lemma executeBuy_cooldown_skips:
  assumes "pendingBuys s (buyKey opp) = Some t" "t \<noteq> 0" "now - t < BUY_COOLDOWN_MS"
  shows "executeBuy cfg ext now opp s = (Inr None, s)"
    and "fst (executeBuy_enter now opp s) \<noteq> BuyDispatched"
  using assms
  by (auto simp: executeBuy_def executeBuy_enter_def Let_def inCooldown_def)

lemma executeBuy_enter_marks:
  assumes "fst (executeBuy_enter now opp s) = BuyDispatched"
  shows "pendingBuys (snd (executeBuy_enter now opp s)) (buyKey opp) = Some now"
  using assms
  by (auto simp: executeBuy_enter_def Let_def split: if_splits)

lemma executeBuy_exit_pending:
  "pendingBuys (snd (executeBuy_exit opp (Inr v) s)) = pendingBuys s"
  "pendingBuys (snd (executeBuy_exit opp (Inl e) s)) = (pendingBuys s)(buyKey opp := None)"
  by (simp_all add: executeBuy_exit_def)

lemma executeBuy_success_keeps_mark:
  assumes "fst (executeBuy_enter now opp s) = BuyDispatched"
    and "fst (executeBuy cfg ext now opp s) = Inr v"
  shows "pendingBuys (snd (executeBuy cfg ext now opp s)) (buyKey opp) = Some now"
proof -
  obtain s1 where en: "executeBuy_enter now opp s = (BuyDispatched, s1)"
    using assms(1) by (metis prod.collapse)
  obtain r s2 where d: "dispatchBuy cfg ext opp s1 = (r, s2)" by (metis surj_pair)
  have m: "pendingBuys s2 (buyKey opp) = Some now"
    using executeBuy_enter_marks [OF assms(1)] en d dispatchBuy_pendingBuys [of cfg ext opp s1]
    by simp
  have ex: "executeBuy cfg ext now opp s = executeBuy_exit opp r s2"
    using en d by (simp add: executeBuy_def)
  with assms(2) have "r = Inr v" by (cases r) (simp_all add: executeBuy_exit_def)
  with ex m show ?thesis by (simp add: executeBuy_exit_def)
qed

lemma executeBuy_throw_clears_mark:
  assumes "fst (executeBuy cfg ext now opp s) = Inl e"
  shows "pendingBuys (snd (executeBuy cfg ext now opp s)) (buyKey opp) = None"
proof -
  obtain en s1 where en: "executeBuy_enter now opp s = (en, s1)" by (metis surj_pair)
  obtain r s2 where d: "dispatchBuy cfg ext opp s1 = (r, s2)" by (metis surj_pair)
  from assms en have "en = BuyDispatched" by (cases en) (simp_all add: executeBuy_def)
  then have ex: "executeBuy cfg ext now opp s = executeBuy_exit opp r s2"
    using en d by (simp add: executeBuy_def)
  with assms have "r = Inl e" by (cases r) (simp_all add: executeBuy_exit_def)
  with ex show ?thesis by (simp add: executeBuy_exit_def)
qed

lemma executeBuy_enter_after_cooldown:
  assumes "\<forall>t. pendingBuys s (buyKey opp) = Some t \<longrightarrow> BUY_COOLDOWN_MS \<le> now - t"
    and "(m_id (opp_market opp), opp_side opp) \<notin> set (map positionKey (getOpenPositions (store s)))"
  shows "executeBuy_enter now opp s
           = (BuyDispatched, s\<lparr>pendingBuys := (pendingBuys s)(buyKey opp \<mapsto> now)\<rparr>)"
proof -
  have "find (\<lambda>p. p_marketId p = m_id (opp_market opp) \<and> p_side p = opp_side opp)
          (getOpenPositions (store s)) = None"
    using assms(2) by (force simp: find_None_iff positionKey_def)
  moreover have "\<not> inCooldown (pendingBuys s (buyKey opp)) now"
    using assms(1) by (auto simp: inCooldown_def split: option.splits)
  ultimately show ?thesis by (simp add: executeBuy_enter_def Let_def)
qed

text \<open>
  Claim C1 (as amended). The cooldown of a (marketId, side) key counts from the last call
  that passed the gateway's guards. If the key carries a mark \<open>t\<close> (a clock reading other
  than 0) and a call starts at \<open>now\<close> with \<open>now - t < 5000\<close>, the call returns null and leaves
  the whole state as it is, so nothing is dispatched. A call that passes the guards sets
  the mark to its own start time before it dispatches; the executors never touch the
  marks; when the dispatched call returns (with or without a position) the mark stays,
  and when it throws the mark is removed. A call that finds no open position for the key
  and no mark younger than 5000 ms is dispatched.
\<close>

theorem buy_cooldown_from_last_dispatch:
  "(\<forall>t. pendingBuys s (buyKey opp) = Some t \<and> t \<noteq> 0 \<and> now - t < BUY_COOLDOWN_MS \<longrightarrow>
       executeBuy cfg ext now opp s = (Inr None, s)
       \<and> fst (executeBuy_enter now opp s) \<noteq> BuyDispatched)
   \<and> (fst (executeBuy_enter now opp s) = BuyDispatched \<longrightarrow>
         pendingBuys (snd (executeBuy_enter now opp s)) (buyKey opp) = Some now)
   \<and> pendingBuys (snd (dispatchBuy cfg ext opp s)) = pendingBuys s
   \<and> (\<forall>v. pendingBuys (snd (executeBuy_exit opp (Inr v) s)) = pendingBuys s)
   \<and> (\<forall>e. pendingBuys (snd (executeBuy_exit opp (Inl e) s)) = (pendingBuys s)(buyKey opp := None))
   \<and> (\<forall>v. fst (executeBuy_enter now opp s) = BuyDispatched
           \<and> fst (executeBuy cfg ext now opp s) = Inr v \<longrightarrow>
         pendingBuys (snd (executeBuy cfg ext now opp s)) (buyKey opp) = Some now)
   \<and> (\<forall>e. fst (executeBuy cfg ext now opp s) = Inl e \<longrightarrow>
         pendingBuys (snd (executeBuy cfg ext now opp s)) (buyKey opp) = None)
   \<and> ((\<forall>t. pendingBuys s (buyKey opp) = Some t \<longrightarrow> BUY_COOLDOWN_MS \<le> now - t)
        \<and> (m_id (opp_market opp), opp_side opp)
             \<notin> set (map positionKey (getOpenPositions (store s))) \<longrightarrow>
         executeBuy_enter now opp s
           = (BuyDispatched, s\<lparr>pendingBuys := (pendingBuys s)(buyKey opp \<mapsto> now)\<rparr>))"
proof -
  have a: "\<forall>t. pendingBuys s (buyKey opp) = Some t \<and> t \<noteq> 0 \<and> now - t < BUY_COOLDOWN_MS \<longrightarrow>
       executeBuy cfg ext now opp s = (Inr None, s)
       \<and> fst (executeBuy_enter now opp s) \<noteq> BuyDispatched"
    using executeBuy_cooldown_skips by blast
  have b: "fst (executeBuy_enter now opp s) = BuyDispatched \<longrightarrow>
         pendingBuys (snd (executeBuy_enter now opp s)) (buyKey opp) = Some now"
    using executeBuy_enter_marks by blast
  have c: "pendingBuys (snd (dispatchBuy cfg ext opp s)) = pendingBuys s"
    by simp
  have d: "\<forall>v. pendingBuys (snd (executeBuy_exit opp (Inr v) s)) = pendingBuys s"
    by (simp add: executeBuy_exit_pending)
  have e: "\<forall>e. pendingBuys (snd (executeBuy_exit opp (Inl e) s))
             = (pendingBuys s)(buyKey opp := None)"
    by (simp add: executeBuy_exit_pending)
  have f: "\<forall>v. fst (executeBuy_enter now opp s) = BuyDispatched
           \<and> fst (executeBuy cfg ext now opp s) = Inr v \<longrightarrow>
         pendingBuys (snd (executeBuy cfg ext now opp s)) (buyKey opp) = Some now"
    using executeBuy_success_keeps_mark by blast
  have g: "\<forall>e. fst (executeBuy cfg ext now opp s) = Inl e \<longrightarrow>
         pendingBuys (snd (executeBuy cfg ext now opp s)) (buyKey opp) = None"
    using executeBuy_throw_clears_mark by blast
  have h: "(\<forall>t. pendingBuys s (buyKey opp) = Some t \<longrightarrow> BUY_COOLDOWN_MS \<le> now - t)
        \<and> (m_id (opp_market opp), opp_side opp)
             \<notin> set (map positionKey (getOpenPositions (store s))) \<longrightarrow>
         executeBuy_enter now opp s
           = (BuyDispatched, s\<lparr>pendingBuys := (pendingBuys s)(buyKey opp \<mapsto> now)\<rparr>)"
    using executeBuy_enter_after_cooldown by blast
  from a b c d e f g h show ?thesis by (intro conjI)
qed

theorem buy_cooldown_from_last_dispatch_witness:
  "pendingBuys boughtSystem (buyKey exampleOpp) = Some 1000
   \<and> fst (executeBuy defaultConfig noExternal 3000 exampleOpp boughtSystem) = Inr None
   \<and> fst (executeBuy_enter 7000 exampleOpp soldSystem) = BuyDispatched"
proof -
  have m: "pendingBuys boughtSystem (buyKey exampleOpp) = Some 1000"
    by code_simp
  have c: "(3000::int) - 1000 < BUY_COOLDOWN_MS" "BUY_COOLDOWN_MS \<le> (7000::int) - 1000"
    by (simp_all add: BUY_COOLDOWN_MS_def)
  have m2: "pendingBuys soldSystem = pendingBuys boughtSystem"
    unfolding soldSystem_def by simp
  have k: "map positionKey (getOpenPositions (store soldSystem)) = []"
    by code_simp
  from buy_cooldown_from_last_dispatch
    [of boughtSystem exampleOpp 3000 defaultConfig noExternal] m c
  have a: "fst (executeBuy defaultConfig noExternal 3000 exampleOpp boughtSystem) = Inr None"
    by simp
  from buy_cooldown_from_last_dispatch
    [of soldSystem exampleOpp 7000 defaultConfig noExternal] m m2 c k
  have b: "fst (executeBuy_enter 7000 exampleOpp soldSystem) = BuyDispatched"
    by simp
  from m a b show ?thesis by simp
qed

text \<open>
  Claim C1 as stated ("of any two calls on a key, the second returns null when it starts
  within 5 seconds of the first") fails when the first call did not pass the guards. After
  a restart the ledger holds an open position on (m1, YES) and no marks: a buy at time
  1000 is refused for the open position and sets no mark; the position is sold; a buy at
  time 2000 is dispatched and returns a position.
\<close>

theorem buy_within_five_seconds_dispatched:
  "fst (executeBuy defaultConfig noExternal 1000 exampleOpp restartedSystem) = Inr None
   \<and> fst (executeBuy_enter 2000 exampleOpp afterSell) = BuyDispatched
   \<and> map_option p_marketId
        (projr (fst (executeBuy defaultConfig noExternal 2000 exampleOpp afterSell)))
       = Some ''m1''
   \<and> (2000::int) - 1000 < BUY_COOLDOWN_MS"
  by code_simp

section \<open>Sell deduplication\<close>

lemma executeSell_pending_skips:
  assumes "p_id pos \<in> pendingSells s"
  shows "executeSell ext pos price s = (Inr None, s)"
  using assms by (simp add: executeSell_def executeSell_enter_def)

lemma executeSell_enter_marks:
  assumes "p_id pos \<notin> pendingSells s"
  shows "executeSell_enter pos s
           = (SellDispatched, s\<lparr>pendingSells := insert (p_id pos) (pendingSells s)\<rparr>)"
  using assms by (simp add: executeSell_enter_def)

lemma executeSell_exit_clears:
  "p_id pos \<notin> pendingSells (snd (executeSell_exit pos r s))"
  "fst (executeSell_exit pos r s) = r"
  by (simp_all add: executeSell_exit_def)

lemma executeSell_result:
  assumes "p_id pos \<notin> pendingSells s"
  shows "fst (executeSell ext pos price s)
           = fst (dispatchSell ext pos price (snd (executeSell_enter pos s)))"
    and "pendingSells (snd (executeSell ext pos price s)) = pendingSells s"
  using assms
  by (simp_all add: executeSell_def executeSell_enter_def executeSell_exit_def split_beta)

lemma concurrentSells_second_null:
  assumes "p_id pos \<notin> pendingSells s"
  shows "fst (snd (concurrentSells ext pos priceA priceB early s)) = Inr None"
    and "fst (concurrentSells ext pos priceA priceB early s)
           = fst (dispatchSell ext pos priceA (snd (executeSell_enter pos s)))"
    and "p_id pos \<notin> pendingSells (snd (snd (concurrentSells ext pos priceA priceB early s)))"
  using assms
  by (simp_all add: concurrentSells_def executeSell_enter_def executeSell_def
      executeSell_exit_def split_beta)

text \<open>
  Claim C2 (as amended). While a position's id is in \<open>pendingSells\<close>, a sell on it returns
  null and changes nothing. A sell on an id that is not pending marks the id before it
  dispatches; the executors never touch the marks; the exit step removes the mark
  whatever the dispatched call gave, so that the next sell on the id is dispatched
  again. Of two overlapping sells on one position the second returns null, and the first
  returns what the executor's sell returns: at most one of the two produces a trade.
\<close>

theorem sell_in_flight_dedup:
  "(p_id pos \<in> pendingSells s \<longrightarrow> executeSell ext pos price s = (Inr None, s))
   \<and> (p_id pos \<notin> pendingSells s \<longrightarrow>
         executeSell_enter pos s
           = (SellDispatched, s\<lparr>pendingSells := insert (p_id pos) (pendingSells s)\<rparr>))
   \<and> pendingSells (snd (dispatchSell ext pos price s)) = pendingSells s
   \<and> p_id pos \<notin> pendingSells (snd (executeSell_exit pos r s))
   \<and> (p_id pos \<notin> pendingSells s \<longrightarrow>
         p_id pos \<notin> pendingSells (snd (executeSell ext pos price s))
         \<and> fst (executeSell_enter pos (snd (executeSell ext pos price s))) = SellDispatched)
   \<and> (p_id pos \<notin> pendingSells s \<longrightarrow>
         fst (snd (concurrentSells ext pos price priceB early s)) = Inr None
         \<and> fst (concurrentSells ext pos price priceB early s)
             = fst (dispatchSell ext pos price (snd (executeSell_enter pos s)))
         \<and> p_id pos \<notin> pendingSells (snd (snd (concurrentSells ext pos price priceB early s))))"
proof -
  have a: "p_id pos \<in> pendingSells s \<longrightarrow> executeSell ext pos price s = (Inr None, s)"
    using executeSell_pending_skips by blast
  have b: "p_id pos \<notin> pendingSells s \<longrightarrow>
         executeSell_enter pos s
           = (SellDispatched, s\<lparr>pendingSells := insert (p_id pos) (pendingSells s)\<rparr>)"
    using executeSell_enter_marks by blast
  have c: "pendingSells (snd (dispatchSell ext pos price s)) = pendingSells s"
    by simp
  have d: "p_id pos \<notin> pendingSells (snd (executeSell_exit pos r s))"
    by (rule executeSell_exit_clears)
  have e: "p_id pos \<notin> pendingSells s \<longrightarrow>
         p_id pos \<notin> pendingSells (snd (executeSell ext pos price s))
         \<and> fst (executeSell_enter pos (snd (executeSell ext pos price s))) = SellDispatched"
    using executeSell_result(2) [of pos s ext price]
    by (simp add: executeSell_enter_def)
  have f: "p_id pos \<notin> pendingSells s \<longrightarrow>
         fst (snd (concurrentSells ext pos price priceB early s)) = Inr None
         \<and> fst (concurrentSells ext pos price priceB early s)
             = fst (dispatchSell ext pos price (snd (executeSell_enter pos s)))
         \<and> p_id pos \<notin> pendingSells (snd (snd (concurrentSells ext pos price priceB early s)))"
    using concurrentSells_second_null by blast
  from a b c d e f show ?thesis by (intro conjI)
qed

theorem sell_in_flight_dedup_witness:
  "fst (snd (concurrentSells noExternal examplePosition (60 / 100) (61 / 100) False
               restartedSystem)) = Inr None
   \<and> map_option t_positionId
        (projr (fst (concurrentSells noExternal examplePosition (60 / 100) (61 / 100) False
                       restartedSystem))) = Some ''p1''
   \<and> fst (executeSell_enter examplePosition
             (snd (executeSell noExternal examplePosition (60 / 100) restartedSystem)))
       = SellDispatched"
proof -
  have n: "p_id examplePosition \<notin> pendingSells restartedSystem"
    by code_simp
  have t: "map_option t_positionId
        (projr (fst (dispatchSell noExternal examplePosition (60 / 100)
                       (snd (executeSell_enter examplePosition restartedSystem))))) = Some ''p1''"
    by code_simp
  from sell_in_flight_dedup
    [of examplePosition restartedSystem noExternal "60 / 100" _ "61 / 100" False] n t
  show ?thesis by simp
qed

text \<open>
  Claim C2 as stated ("exactly one produces a Trade") fails in real mode when the order of
  the first call comes back unfilled: both calls return null and no trade is recorded.
\<close>

theorem concurrent_sells_no_trade:
  "fst (concurrentSells unfilledExternal examplePosition (60 / 100) (60 / 100) True realSystem)
     = Inr None
   \<and> fst (snd (concurrentSells unfilledExternal examplePosition (60 / 100) (60 / 100) True
                 realSystem)) = Inr None
   \<and> trades (store (snd (snd (concurrentSells unfilledExternal examplePosition (60 / 100)
                 (60 / 100) True realSystem)))) = []"
  by code_simp

section \<open>Position sizing\<close>

lemma foldl_add_sizes: "foldl (\<lambda>s p. s + p_size p) a ps = a + sum_list (map p_size ps)"
  by (induction ps arbitrary: a) auto

lemma sumSizes_sum_list: "sumSizes ps = sum_list (map p_size ps)"
  by (simp add: sumSizes_def foldl_add_sizes)

lemma getPortfolio_balance:
  "balance (snd (getPortfolio pe st)) = balance pe"
  "pf_balance (fst (getPortfolio pe st)) = balance pe"
  by (simp_all add: getPortfolio_def Let_def)

lemma paper_size_is_spec:
  assumes "opp_entryPrice opp \<noteq> 1"
  shows "fst (calculatePositionSize cfg pe st opp)
           = spec_positionSize kellyFractions (95 / 100) cfg opp (fst (getPortfolio pe st))"
proof -
  obtain pf pe' where g: "getPortfolio pe st = (pf, pe')" by (metis surj_pair)
  have bal: "balance pe' = pf_balance pf"
    using getPortfolio_balance [of pe st] by (simp add: g)
  have c1: "\<And>a. pf_totalValue pf * a_currentWeight a = a_currentWeight a * pf_totalValue pf"
    by (rule mult.commute)
  have c2: "pf_totalValue pf * maxCategoryPct cfg = maxCategoryPct cfg * pf_totalValue pf"
    by (rule mult.commute)
  have c3: "pf_balance pf * (95 / 100) = 95 / 100 * pf_balance pf"
    by (rule mult.commute)
  have c4: "\<And>x::real. x * (5 / 10) = x / 2"
    by simp
  show ?thesis
  proof (cases "opp_edge opp \<le> 0")
    case True
    then show ?thesis
      by (simp add: calculatePositionSize_def spec_positionSize_def g)
  next
    case False
    show ?thesis
      unfolding calculatePositionSize_def spec_positionSize_def g
      by (simp only: Let_def split_conv fst_conv snd_conv False assms if_False kellyCapped_def
          sumSizes_sum_list investedIn_def bal c1 c2 c3 c4)
  qed
qed

lemma real_multipliers_half: "real_kellyFractions c = kellyFractions c / 2"
  by (cases c) (simp_all add: real_kellyFractions_def kellyFractions_def)

lemma real_size_formula:
  assumes "opp_entryPrice opp \<noteq> 1"
  shows "real_calculatePositionSize cfg re opp =
     (if opp_edge opp \<le> 0 then 0
      else max 0
        (min (max (minPositionUsd cfg)
               (min (min (opp_edge opp / (1 - opp_entryPrice opp)
                            * real_kellyFractions (opp_confidence opp))
                         (maxPositionPct cfg / 2) * realBalance re)
                    (maxPositionUsd cfg / 2)))
             (realBalance re * (8 / 10))))"
  using assms
  by (simp add: real_calculatePositionSize_def Let_def kellyCapped_def)

lemma size_zero:
  assumes "opp_edge opp \<le> 0"
  shows "fst (calculatePositionSize cfg pe st opp) = 0" "real_calculatePositionSize cfg re opp = 0"
  using assms
  by (simp_all add: calculatePositionSize_def real_calculatePositionSize_def split_beta Let_def)

lemma drawnPortfolio_fields:
  "pf_totalValue drawnPortfolio = 1000" "pf_balance drawnPortfolio = 1000"
  "pf_drawdownPercent drawnPortfolio = 20" "pf_openPositions drawnPortfolio = []"
  "pf_allocations drawnPortfolio = initialAllocations"
  by (simp_all add: drawnPortfolio_def real_getPortfolio_def drawnReal_def emptyStore_def
      Let_def getOpenPositions_def)

lemma find_alloc_Value:
  "find (\<lambda>a. a_strategy a = Value) initialAllocations
     = Some \<lparr>a_strategy = Value, a_currentWeight = 30 / 100, a_minWeight = 5 / 100,
             a_maxWeight = 40 / 100, a_performanceScore = 0\<rparr>"
  by (simp add: initialAllocations_def)

lemma spec_drawn_bound:
  "spec_positionSize real_kellyFractions f defaultConfig exampleOpp drawnPortfolio \<le> 125 / 12"
  by (simp add: spec_positionSize_def drawnPortfolio_fields Let_def exampleOpp_def
      exampleMarket_def defaultConfig_def real_kellyFractions_def find_alloc_Value
      investedIn_def min_def max_def)

text \<open>
  Claim C5 (as amended). Both executors return size 0 for an edge that is not positive. For
  an entry price other than 1, the paper executor's size is the sizing rule of the
  specification with the paper multipliers and 95 percent of the cash balance, evaluated
  on the current portfolio. The real-money multipliers are half the paper ones. The real
  adapter's size is the Kelly fraction times its multiplier, capped at half the maximal
  position percentage, taken of the cash balance (not the total value), clamped to
  [min, max / 2], clamped to 80 percent of the cash balance and floored at 0: it applies
  no strategy or category budget and no drawdown halving.
\<close>

theorem position_size_by_mode:
  "(opp_edge opp \<le> 0 \<longrightarrow>
      fst (calculatePositionSize cfg pe st opp) = 0 \<and> real_calculatePositionSize cfg re opp = 0)
   \<and> (opp_entryPrice opp \<noteq> 1 \<longrightarrow>
        fst (calculatePositionSize cfg pe st opp)
          = spec_positionSize kellyFractions (95 / 100) cfg opp (fst (getPortfolio pe st)))
   \<and> real_kellyFractions c = kellyFractions c / 2
   \<and> (opp_entryPrice opp \<noteq> 1 \<longrightarrow>
        real_calculatePositionSize cfg re opp =
          (if opp_edge opp \<le> 0 then 0
           else max 0
             (min (max (minPositionUsd cfg)
                    (min (min (opp_edge opp / (1 - opp_entryPrice opp)
                                 * real_kellyFractions (opp_confidence opp))
                              (maxPositionPct cfg / 2) * realBalance re)
                         (maxPositionUsd cfg / 2)))
                  (realBalance re * (8 / 10)))))"
proof (intro conjI impI)
  assume "opp_edge opp \<le> 0"
  then show "fst (calculatePositionSize cfg pe st opp) = 0"
    and "real_calculatePositionSize cfg re opp = 0"
    by (rule size_zero)+
next
  assume "opp_entryPrice opp \<noteq> 1"
  then show "fst (calculatePositionSize cfg pe st opp)
          = spec_positionSize kellyFractions (95 / 100) cfg opp (fst (getPortfolio pe st))"
    by (rule paper_size_is_spec)
next
  show "real_kellyFractions c = kellyFractions c / 2"
    by (rule real_multipliers_half)
next
  assume "opp_entryPrice opp \<noteq> 1"
  then show "real_calculatePositionSize cfg re opp =
          (if opp_edge opp \<le> 0 then 0
           else max 0
             (min (max (minPositionUsd cfg)
                    (min (min (opp_edge opp / (1 - opp_entryPrice opp)
                                 * real_kellyFractions (opp_confidence opp))
                              (maxPositionPct cfg / 2) * realBalance re)
                         (maxPositionUsd cfg / 2)))
                  (realBalance re * (8 / 10))))"
    by (rule real_size_formula)
qed

theorem position_size_by_mode_witness:
  "fst (calculatePositionSize defaultConfig freshPaper emptyStore exampleOpp) = 125 / 3
   \<and> spec_positionSize kellyFractions (95 / 100) defaultConfig exampleOpp
        (fst (getPortfolio freshPaper emptyStore)) = 125 / 3
   \<and> fst (calculatePositionSize defaultConfig drawnPaper emptyStore exampleOpp) = 50 / 3
   \<and> real_calculatePositionSize defaultConfig liveReal exampleOpp = 475 / 24
   \<and> fst (calculatePositionSize defaultConfig freshPaper emptyStore
             (exampleOpp\<lparr>opp_edge := 0\<rparr>)) = 0"
proof -
  have p: "opp_entryPrice exampleOpp \<noteq> 1" "opp_edge (exampleOpp\<lparr>opp_edge := 0\<rparr>) \<le> 0"
    by (simp_all add: exampleOpp_def)
  have a: "spec_positionSize kellyFractions (95 / 100) defaultConfig exampleOpp
        (fst (getPortfolio freshPaper emptyStore)) = 125 / 3"
    by code_simp
  have b: "spec_positionSize kellyFractions (95 / 100) defaultConfig exampleOpp
        (fst (getPortfolio drawnPaper emptyStore)) = 50 / 3"
    by code_simp
  have c: "(if opp_edge exampleOpp \<le> 0 then 0
           else max 0
             (min (max (minPositionUsd defaultConfig)
                    (min (min (opp_edge exampleOpp / (1 - opp_entryPrice exampleOpp)
                                 * real_kellyFractions (opp_confidence exampleOpp))
                              (maxPositionPct defaultConfig / 2) * realBalance liveReal)
                         (maxPositionUsd defaultConfig / 2)))
                  (realBalance liveReal * (8 / 10)))) = 475 / 24"
    by code_simp
  from position_size_by_mode [of exampleOpp defaultConfig freshPaper emptyStore liveReal Low]
    position_size_by_mode [of exampleOpp defaultConfig drawnPaper emptyStore liveReal Low]
    position_size_by_mode [of "exampleOpp\<lparr>opp_edge := 0\<rparr>" defaultConfig freshPaper emptyStore
       liveReal Low]
    p a b c
  show ?thesis by simp
qed

text \<open>
  Claim C5 as stated fails for the real adapter: with cash 1000 and a peak of 1250 (a
  drawdown of 20 percent, past the 15 percent warning) it sizes the example opportunity at
  125/6, while the rule of the specification with the real multipliers gives 125/12 for
  the cash fraction 0.8 and at most 125/12 for every cash fraction.
\<close>

theorem real_size_ignores_drawdown:
  "real_calculatePositionSize defaultConfig drawnReal exampleOpp = 125 / 6
   \<and> real_getPortfolio 1000 0 drawnReal emptyStore = Inr (drawnPortfolio, drawnReal)
   \<and> pf_drawdownPercent drawnPortfolio = 20
   \<and> spec_positionSize real_kellyFractions (8 / 10) defaultConfig exampleOpp drawnPortfolio
       = 125 / 12
   \<and> (\<forall>f. spec_positionSize real_kellyFractions f defaultConfig exampleOpp drawnPortfolio
            \<le> 125 / 12)"
proof -
  have a: "real_calculatePositionSize defaultConfig drawnReal exampleOpp = 125 / 6"
    by code_simp
  have b: "real_getPortfolio 1000 0 drawnReal emptyStore = Inr (drawnPortfolio, drawnReal)"
    by code_simp
  have c: "spec_positionSize real_kellyFractions (8 / 10) defaultConfig exampleOpp drawnPortfolio
       = 125 / 12"
    by code_simp
  from a b c drawnPortfolio_fields(3) spec_drawn_bound show ?thesis by blast
qed

section \<open>The trading gate\<close>

lemma paper_canTrade_iff:
  "allowed (fst (canTrade cfg pe st))
     = (\<not> (pf_drawdownPercent (fst (getPortfolio pe st)) \<ge> drawdownHaltPct cfg * 100
           \<or> pf_balance (fst (getPortfolio pe st))
               < pf_totalValue (fst (getPortfolio pe st)) * minBufferPct cfg))"
proof -
  obtain pf pe' where g: "getPortfolio pe st = (pf, pe')" by (metis surj_pair)
  have bal: "balance pe' = pf_balance pf"
    using g by (auto simp: getPortfolio_def Let_def)
  show ?thesis
    by (simp add: canTrade_def g Let_def allowed_def bal)
qed

lemma real_canTrade_iff:
  "allowed (real_canTrade cfg re)
     = (initialized re \<and> \<not> realBalance re < minPositionUsd cfg * 2)"
  by (simp add: real_canTrade_def allowed_def)

lemma closePosition_trades [simp]:
  "trades (snd (closePosition st i price)) = trades st"
  "uuid (snd (closePosition st i price)) = uuid st"
  "uuid_next (snd (closePosition st i price)) = uuid_next st"
  by (simp_all add: closePosition_def updateRows_def Let_def split: option.splits)

lemma recordTrade_fresh:
  assumes "find (\<lambda>x. t_id x = uuid st (uuid_next st)) (trades st) = None"
  shows "recordTrade st t
           = Inr (t\<lparr>t_id := uuid st (uuid_next st)\<rparr>,
                  st\<lparr>uuid_next := Suc (uuid_next st),
                     trades := trades st @ [t\<lparr>t_id := uuid st (uuid_next st)\<rparr>]\<rparr>)"
  using assms by (simp add: recordTrade_def randomUUID_def Let_def)

lemma paper_sell_not_gated:
  assumes "p_id pos \<notin> sellingPositions pe"
    and "find (\<lambda>x. t_id x = uuid st (uuid_next st)) (trades st) = None"
  shows "\<exists>trade. fst (paper_executeSell pos price pe st) = Inr (Some trade)
           \<and> t_action trade = SELL \<and> t_positionId trade = p_id pos"
  using assms
  by (simp add: paper_executeSell_def Let_def split_beta recordTrade_fresh)

lemma real_sell_not_gated:
  assumes "initialized re" "ext_order ext 0 = Resolves ord"
    and "statusFilled ord \<or> filledAmount ord \<noteq> 0"
    and "find (\<lambda>x. t_id x = uuid st (uuid_next st)) (trades st) = None"
    and "ext_balance ext = Resolves b"
  shows "\<exists>trade. fst (real_executeSell ext pos price re st) = Inr (Some trade)
           \<and> t_action trade = SELL \<and> t_positionId trade = p_id pos"
  using assms
  by (auto simp: real_executeSell_def Let_def recordTrade_fresh)

text \<open>
  Claim C6 (as amended). In paper mode \<open>canTrade\<close> allows trading exactly when the drawdown
  percentage is below the halt threshold and the cash balance is at least the buffer
  fraction of the total value. In real mode it allows trading exactly when the adapter
  is initialized and the cash balance is at least twice the minimal position size; the
  drawdown is not consulted. Sells are not gated: a paper sell of a position that is not
  already being sold returns a trade, and a real sell whose order is filled returns a
  trade, whatever \<open>canTrade\<close> answers (the trade's identifier being new to the trades
  table).
\<close>

theorem canTrade_blocks_buys_only:
  "allowed (fst (canTrade cfg pe st))
     = (\<not> (pf_drawdownPercent (fst (getPortfolio pe st)) \<ge> drawdownHaltPct cfg * 100
           \<or> pf_balance (fst (getPortfolio pe st))
               < pf_totalValue (fst (getPortfolio pe st)) * minBufferPct cfg))
   \<and> allowed (real_canTrade cfg re)
       = (initialized re \<and> \<not> realBalance re < minPositionUsd cfg * 2)
   \<and> (p_id pos \<notin> sellingPositions pe
        \<and> find (\<lambda>x. t_id x = uuid st (uuid_next st)) (trades st) = None \<longrightarrow>
        (\<exists>trade. fst (paper_executeSell pos price pe st) = Inr (Some trade)
           \<and> t_action trade = SELL \<and> t_positionId trade = p_id pos))
   \<and> (initialized re \<and> ext_order ext 0 = Resolves ord
        \<and> (statusFilled ord \<or> filledAmount ord \<noteq> 0)
        \<and> find (\<lambda>x. t_id x = uuid st (uuid_next st)) (trades st) = None
        \<and> ext_balance ext = Resolves b \<longrightarrow>
        (\<exists>trade. fst (real_executeSell ext pos price re st) = Inr (Some trade)
           \<and> t_action trade = SELL \<and> t_positionId trade = p_id pos))"
proof (intro conjI impI)
  show "allowed (fst (canTrade cfg pe st))
     = (\<not> (pf_drawdownPercent (fst (getPortfolio pe st)) \<ge> drawdownHaltPct cfg * 100
           \<or> pf_balance (fst (getPortfolio pe st))
               < pf_totalValue (fst (getPortfolio pe st)) * minBufferPct cfg))"
    by (rule paper_canTrade_iff)
  show "allowed (real_canTrade cfg re)
       = (initialized re \<and> \<not> realBalance re < minPositionUsd cfg * 2)"
    by (rule real_canTrade_iff)
next
  assume "p_id pos \<notin> sellingPositions pe
        \<and> find (\<lambda>x. t_id x = uuid st (uuid_next st)) (trades st) = None"
  then show "\<exists>trade. fst (paper_executeSell pos price pe st) = Inr (Some trade)
           \<and> t_action trade = SELL \<and> t_positionId trade = p_id pos"
    using paper_sell_not_gated by blast
next
  assume "initialized re \<and> ext_order ext 0 = Resolves ord
        \<and> (statusFilled ord \<or> filledAmount ord \<noteq> 0)
        \<and> find (\<lambda>x. t_id x = uuid st (uuid_next st)) (trades st) = None
        \<and> ext_balance ext = Resolves b"
  then show "\<exists>trade. fst (real_executeSell ext pos price re st) = Inr (Some trade)
           \<and> t_action trade = SELL \<and> t_positionId trade = p_id pos"
    using real_sell_not_gated by blast
qed

theorem canTrade_blocks_buys_only_witness:
  "pf_totalValue (fst (getPortfolio haltedPaper exampleStore)) = 740
   \<and> pf_peakValue (fst (getPortfolio haltedPaper exampleStore)) = 1000
   \<and> \<not> allowed (fst (canTrade defaultConfig haltedPaper exampleStore))
   \<and> (\<exists>trade. fst (paper_executeSell examplePosition (60 / 100) haltedPaper exampleStore)
                 = Inr (Some trade) \<and> t_action trade = SELL)
   \<and> \<not> allowed (real_canTrade defaultConfig (liveReal\<lparr>realBalance := 15\<rparr>))
   \<and> (\<exists>trade. fst (real_executeSell filledExternal examplePosition (60 / 100)
                       (liveReal\<lparr>realBalance := 15\<rparr>) exampleStore)
                 = Inr (Some trade) \<and> t_action trade = SELL)"
proof -
  have v: "pf_totalValue (fst (getPortfolio haltedPaper exampleStore)) = 740"
    "pf_peakValue (fst (getPortfolio haltedPaper exampleStore)) = 1000"
    "pf_drawdownPercent (fst (getPortfolio haltedPaper exampleStore)) = 26"
    "drawdownHaltPct defaultConfig * 100 = 25"
    by code_simp+
  have h: "p_id examplePosition \<notin> sellingPositions haltedPaper"
    "find (\<lambda>x. t_id x = uuid exampleStore (uuid_next exampleStore)) (trades exampleStore) = None"
    "initialized (liveReal\<lparr>realBalance := 15\<rparr>)"
    "ext_order filledExternal 0
       = Resolves \<lparr>statusFilled = True, filledAmount = 100, avgFillPrice = 58 / 100\<rparr>"
    "ext_balance filledExternal = Resolves 798"
    "realBalance (liveReal\<lparr>realBalance := 15\<rparr>) < minPositionUsd defaultConfig * 2"
    by (simp_all add: examplePosition_def haltedPaper_def exampleStore_def liveReal_def
        filledExternal_def defaultConfig_def rowToPosition_def exampleRow_def)
  from canTrade_blocks_buys_only
    [of defaultConfig haltedPaper exampleStore "liveReal\<lparr>realBalance := 15\<rparr>" examplePosition
        "60 / 100" filledExternal
        "\<lparr>statusFilled = True, filledAmount = 100, avgFillPrice = 58 / 100\<rparr>" 798]
    v h
  show ?thesis by auto
qed

text \<open>
  Claim C6 as stated fails in real mode: with cash 740, nothing held and a peak of 1000 the
  drawdown is 26 percent, above the 25 percent halt threshold, and \<open>canTrade\<close> still allows
  trading.
\<close>

theorem real_canTrade_ignores_drawdown:
  "real_getPortfolio 740 0 haltedReal emptyStore = Inr (haltedPortfolio, haltedReal)
   \<and> pf_peakValue haltedPortfolio = 1000 \<and> pf_totalValue haltedPortfolio = 740
   \<and> pf_drawdownPercent haltedPortfolio = 26
   \<and> drawdownHaltPct defaultConfig * 100 = 25
   \<and> allowed (real_canTrade defaultConfig haltedReal)"
  by code_simp

section \<open>Equal shares in a paper arbitrage basket\<close>





lemma savePortfolioSnapshot_positions [simp]:
  "positions (savePortfolioSnapshot st pf) = positions st"
  by (simp add: savePortfolioSnapshot_def)







section \<open>The event reactor\<close>

text \<open>
  Registration: the price map of a registered market tracks the outcomes of the market
  that carry a token id, in their order, at their listed prices.
\<close>

lemma registerOutcomes_tracked:
  "snd (registerOutcomes market i os a2m acc)
     = acc @ map (\<lambda>oc. \<lparr>op_assetId = o_tokenId oc, op_price = o_price oc, op_name = o_name oc\<rparr>)
               (filter (\<lambda>oc. o_tokenId oc \<noteq> []) os)"
  by (induction os arbitrary: i a2m acc) simp_all

lemma registerLoop_other:
  "k \<notin> m_id ` set ms \<Longrightarrow> marketPrices (registerLoop ms t) k = marketPrices t k"
  by (induction ms arbitrary: t) (simp_all add: split_beta Let_def)

lemma registerLoop_priceMap:
  "distinct (map m_id ms) \<Longrightarrow> market \<in> set ms \<Longrightarrow>
   marketPrices (registerLoop ms t) (m_id market)
     = Some \<lparr>mp_marketId = m_id market,
             mp_outcomes =
               map (\<lambda>oc. \<lparr>op_assetId = o_tokenId oc, op_price = o_price oc, op_name = o_name oc\<rparr>)
                 (filter (\<lambda>oc. o_tokenId oc \<noteq> []) (m_outcomes market)),
             lastArbCheck = 0\<rparr>"
proof (induction ms arbitrary: t)
  case Nil
  then show ?case by simp
next
  case (Cons m rest)
  show ?case
  proof (cases "market \<in> set rest")
    case True
    with Cons show ?thesis by (simp add: split_beta Let_def)
  next
    case False
    with Cons.prems have eq: "market = m" and k: "m_id m \<notin> m_id ` set rest" by auto
    show ?thesis
      using registerOutcomes_tracked [of m 0 "m_outcomes m" "assetToMarket t" "[]"]
      by (simp add: eq split_beta Let_def registerLoop_other [OF k])
  qed
qed

lemma registerMarkets_priceMap:
  "distinct (map m_id ms) \<Longrightarrow> market \<in> set ms \<Longrightarrow>
   marketPrices (registerMarkets ms t) (m_id market)
     = Some \<lparr>mp_marketId = m_id market,
             mp_outcomes =
               map (\<lambda>oc. \<lparr>op_assetId = o_tokenId oc, op_price = o_price oc, op_name = o_name oc\<rparr>)
                 (filter (\<lambda>oc. o_tokenId oc \<noteq> []) (m_outcomes market)),
             lastArbCheck = 0\<rparr>"
  by (simp add: registerMarkets_def registerLoop_priceMap)



lemma gwArbitrageBuy_reactor [simp]:
  "reactor (snd (gwArbitrageBuy env am outs tc gp e)) = reactor e"
  by (simp add: gwArbitrageBuy_def split_beta)

lemma gwBuy_reactor [simp]: "reactor (snd (gwBuy env opp e)) = reactor e"
  by (simp add: gwBuy_def split_beta)

lemma gwSell_reactor [simp]: "reactor (snd (gwSell env pos price e)) = reactor e"
  by (simp add: gwSell_def split_beta)

lemma gwBuy_whale [simp]: "whaleTrades (snd (gwBuy env opp e)) = whaleTrades e"
  by (simp add: gwBuy_def split_beta)


lemma gwBuy_frame:
  assumes "gwBuy env opp e = (r, e1)"
  shows "reactor e1 = reactor e" "whaleTrades e1 = whaleTrades e"
  using assms by (auto simp: gwBuy_def split_beta)

lemma gwSell_frame:
  assumes "gwSell env pos price e = (r, e1)"
  shows "reactor e1 = reactor e" "whaleTrades e1 = whaleTrades e"
  using assms by (auto simp: gwSell_def split_beta)

lemma gwArbitrageBuy_frame:
  assumes "gwArbitrageBuy env am outs tc gp e = (r, e1)"
  shows "reactor e1 = reactor e" "whaleTrades e1 = whaleTrades e"
  using assms by (auto simp: gwArbitrageBuy_def split_beta)

lemma gwSell_whale [simp]: "whaleTrades (snd (gwSell env pos price e)) = whaleTrades e"
  by (simp add: gwSell_def split_beta)

lemma gwArbitrageBuy_whale [simp]:
  "whaleTrades (snd (gwArbitrageBuy env am outs tc gp e)) = whaleTrades e"
  by (simp add: gwArbitrageBuy_def split_beta)

lemma sameBook_refl [simp]: "sameBook e e"
  by (simp add: sameBook_def)

lemma sameBook_trans: "sameBook a b \<Longrightarrow> sameBook b c \<Longrightarrow> sameBook a c"
  by (simp add: sameBook_def)

lemma sameBook_gwBuy [simp]: "sameBook e (snd (gwBuy env opp e))"
  by (simp add: sameBook_def)

lemma sameBook_gwSell [simp]: "sameBook e (snd (gwSell env pos price e))"
  by (simp add: sameBook_def)

lemma sameBook_gwArbitrageBuy [simp]: "sameBook e (snd (gwArbitrageBuy env am outs tc gp e))"
  by (simp add: sameBook_def)

lemma sameBook_updStats [simp]: "sameBook e (updStats f e)"
  by (simp add: sameBook_def updStats_def)

lemma sameBook_updStats_after: "sameBook e e1 \<Longrightarrow> sameBook e (updStats f e1)"
  by (simp add: sameBook_def updStats_def)

lemma sameBook_lastTradeTime:
  "sameBook e1
     (e1\<lparr>reactor := (reactor e1)
          \<lparr>priceHistory :=
             (case priceHistory (reactor e1) a of
                None \<Rightarrow> priceHistory (reactor e1)
              | Some h \<Rightarrow> (priceHistory (reactor e1))(a \<mapsto> h\<lparr>lastTradeTime := now\<rparr>))\<rparr>\<rparr>)"
  by (simp add: sameBook_def split: option.splits)

lemma handlePriceDrop_book:
  "sameBook e (snd (snd (handlePriceDrop env a cp pp pc e)))"
  by (simp add: handlePriceDrop_def split_beta sameBook_def updStats_def
      split: option.split sum.split)


lemma handleWhaleTrade_book:
  "sameBook e (snd (snd (handleWhaleTrade env a price sz e)))"
  by (simp add: handleWhaleTrade_def split_beta sameBook_def updStats_def
      split: option.split sum.split)

lemma checkArbSpread_prices:
  "map_option prices (priceHistory (reactor (snd (snd (checkArbSpread env market e)))) x)
     = map_option prices (priceHistory (reactor e) x)"
  "enabled (reactor (snd (snd (checkArbSpread env market e)))) = enabled (reactor e)"
  "whaleTrades (snd (snd (checkArbSpread env market e))) = whaleTrades e"
  by (simp_all add: checkArbSpread_def Let_def split_beta updStats_def
      split: option.split sum.split)

lemma instantExitLoop_book:
  "sameBook e (snd (snd (instantExitLoop env a cp ps calls0 e)))"
proof (induction ps arbitrary: calls0 e)
  case Nil
  show ?case by simp
next
  case (Cons p ps)
  have s1: "\<And>calls1. sameBook e
      (snd (snd (instantExitLoop env a cp ps calls1 (snd (gwSell env p cp e)))))"
    by (rule sameBook_trans [OF sameBook_gwSell Cons.IH])
  have s2: "\<And>calls1 f. sameBook e
      (snd (snd (instantExitLoop env a cp ps calls1 (updStats f (snd (gwSell env p cp e))))))"
    by (rule sameBook_trans [OF sameBook_updStats_after [OF sameBook_gwSell] Cons.IH])
  show ?case
    by (simp add: Let_def split_beta s1 s2 Cons.IH split: sum.split option.split)
qed


lemma checkInstantExit_book:
  "sameBook e (snd (snd (checkInstantExit env a cp e)))"
  by (simp add: checkInstantExit_def instantExitLoop_book)


lemma priceSignals_book:
  "sameBook e1 (snd (snd (priceSignals env a price lp e1)))"
proof -
  have t: "\<And>x y z. sameBook e1
     (snd (snd (checkInstantExit env a z (snd (snd (handlePriceDrop env a price x y e1))))))"
    by (rule sameBook_trans [OF handlePriceDrop_book checkInstantExit_book])
  show ?thesis
    by (simp add: priceSignals_def Let_def split_beta handlePriceDrop_book
        checkInstantExit_book t split: option.split)
qed


lemma recordPrice_frame [simp]:
  "assetToMarket (recordPrice u t) = assetToMarket t"
  "enabled (recordPrice u t) = enabled t"
  by (simp_all add: recordPrice_def Let_def split: option.split)

lemma recordPrice_prices:
  "map_option prices (priceHistory (recordPrice u t) (pu_assetId u))
     = Some (sliceLast 20
         ((case priceHistory t (pu_assetId u) of None \<Rightarrow> [] | Some h \<Rightarrow> prices h)
            @ [\<lparr>pp_price = pu_price u, pp_timestamp = pu_timestamp u\<rparr>]))"
  by (simp add: recordPrice_def Let_def sliceLast_def split: option.split)


lemma handlePriceUpdate_disabled:
  assumes "\<not> enabled (reactor e)"
  shows "handlePriceUpdate env u e = (None, [], e)"
  using assms by (simp add: handlePriceUpdate_def)

lemma handleTradeUpdate_disabled:
  assumes "\<not> enabled (reactor e)"
  shows "handleTradeUpdate env tu e = (None, [], e)"
  using assms by (simp add: handleTradeUpdate_def)

section \<open>The arbitrage band of the event reactor\<close>



section \<open>Disabling the event reactor\<close>

text \<open>
  Claim C9 (as amended). Both handlers return at once while the reactor is disabled: a price
  notification leaves the whole engine unchanged (nothing is appended to the price
  history, no price map is updated, no signal is raised) and a trade notification leaves
  it unchanged as well (nothing is forwarded to whale aggregation). \<open>enable\<close> and \<open>disable\<close>
  only flip the flag, so the history accumulated before a disable is still there after
  the next enable. While the reactor is enabled, a price notification appends its point
  to the history of the asset, trimmed to the last 20 points, and a trade notification of
  size at least 1000 is forwarded to whale aggregation.
\<close>

theorem disabled_reactor_is_inert:
  "(\<not> enabled (reactor e) \<longrightarrow>
      handlePriceUpdate env u e = (None, [], e) \<and> handleTradeUpdate env tu e = (None, [], e))
   \<and> priceHistory (disable t) = priceHistory t \<and> priceHistory (enable t) = priceHistory t
   \<and> marketPrices (disable t) = marketPrices t \<and> lastWhaleFollow (disable t) = lastWhaleFollow t
   \<and> enable (disable t) = t\<lparr>enabled := True\<rparr>
   \<and> (enabled (reactor e) \<longrightarrow>
        map_option prices
          (priceHistory (reactor (snd (snd (handlePriceUpdate env u e)))) (pu_assetId u))
        = Some (sliceLast 20
            ((case priceHistory (reactor e) (pu_assetId u) of None \<Rightarrow> [] | Some h \<Rightarrow> prices h)
               @ [\<lparr>pp_price = pu_price u, pp_timestamp = pu_timestamp u\<rparr>])))
   \<and> (enabled (reactor e) \<and> tu_size tu \<ge> 1000 \<longrightarrow>
        whaleTrades (snd (snd (handleTradeUpdate env tu e)))
        = filter (\<lambda>x. tu_timestamp x \<ge> at_whaleCleanup (env_clock env) - LOOKBACK_WINDOW_MS)
            (whaleTrades e @ [tu]))"
proof (intro conjI impI)
  assume d: "\<not> enabled (reactor e)"
  show "handlePriceUpdate env u e = (None, [], e)"
    using d by (rule handlePriceUpdate_disabled)
  show "handleTradeUpdate env tu e = (None, [], e)"
    using d by (rule handleTradeUpdate_disabled)
next
  show "priceHistory (disable t) = priceHistory t" "priceHistory (enable t) = priceHistory t"
    "marketPrices (disable t) = marketPrices t" "lastWhaleFollow (disable t) = lastWhaleFollow t"
    "enable (disable t) = t\<lparr>enabled := True\<rparr>"
    by (simp_all add: enable_def disable_def)
next
  assume en: "enabled (reactor e)"
  let ?e1 = "e\<lparr>reactor := recordPrice u (reactor e)\<rparr>"
  let ?ps = "priceSignals env (pu_assetId u) (pu_price u)
                   (lastPriceOf (reactor e) (pu_assetId u)) ?e1"
  let ?e2 = "snd (snd ?ps)"
  have b: "sameBook ?e1 ?e2" by (rule priceSignals_book)
  have p2: "map_option prices (priceHistory (reactor ?e2) (pu_assetId u))
          = map_option prices (priceHistory (recordPrice u (reactor e)) (pu_assetId u))"
    using b by (simp add: sameBook_def)
  have "map_option prices
          (priceHistory (reactor (snd (snd (handlePriceUpdate env u e)))) (pu_assetId u))
        = map_option prices (priceHistory (reactor ?e2) (pu_assetId u))"
    using en
    by (simp add: handlePriceUpdate_def Let_def split_beta checkArbSpread_prices
        split: option.split)
  then show "map_option prices
          (priceHistory (reactor (snd (snd (handlePriceUpdate env u e)))) (pu_assetId u))
        = Some (sliceLast 20
            ((case priceHistory (reactor e) (pu_assetId u) of None \<Rightarrow> [] | Some h \<Rightarrow> prices h)
               @ [\<lparr>pp_price = pu_price u, pp_timestamp = pu_timestamp u\<rparr>]))"
    using p2 recordPrice_prices by simp
next
  assume a: "enabled (reactor e) \<and> tu_size tu \<ge> 1000"
  let ?e1 = "e\<lparr>whaleTrades :=
                 whale_recordTrade (at_whaleCleanup (env_clock env)) tu (whaleTrades e)\<rparr>"
  have w: "whaleTrades (snd (snd (handleTradeUpdate env tu e))) = whaleTrades ?e1"
    using a handleWhaleTrade_book [of ?e1 env "tu_assetId tu" "tu_price tu" "tu_size tu"]
    by (simp add: handleTradeUpdate_def Let_def sameBook_def)
  show "whaleTrades (snd (snd (handleTradeUpdate env tu e)))
        = filter (\<lambda>x. tu_timestamp x \<ge> at_whaleCleanup (env_clock env) - LOOKBACK_WINDOW_MS)
            (whaleTrades e @ [tu])"
    using a unfolding w
    by (simp add: whale_recordTrade_def WHALE_TRADE_MIN_SIZE_def)
qed

theorem disabled_reactor_is_inert_witness:
  "handlePriceUpdate exampleEnv includedUpdate disabledEngine = (None, [], disabledEngine)
   \<and> handleTradeUpdate exampleEnv whaleUpdate disabledEngine = (None, [], disabledEngine)
   \<and> map_option prices
        (priceHistory (reactor (snd (snd (handlePriceUpdate exampleEnv includedUpdate exampleEngine))))
           ''tok-no'')
      = Some [\<lparr>pp_price = 57999 / 100000, pp_timestamp = 999000\<rparr>]
   \<and> whaleTrades (snd (snd (handleTradeUpdate exampleEnv whaleUpdate exampleEngine)))
      = [whaleUpdate]"
proof -
  have d: "\<not> enabled (reactor disabledEngine)" by code_simp
  have en: "enabled (reactor exampleEngine)" by code_simp
  have sz: "tu_size whaleUpdate \<ge> 1000" by code_simp
  have h0: "priceHistory (reactor exampleEngine) (pu_assetId includedUpdate) = None"
    by code_simp
  have sl: "sliceLast 20 [\<lparr>pp_price = pu_price includedUpdate,
                           pp_timestamp = pu_timestamp includedUpdate\<rparr>]
            = [\<lparr>pp_price = 57999 / 100000, pp_timestamp = 999000\<rparr>]"
    by code_simp
  have id: "pu_assetId includedUpdate = ''tok-no''" by code_simp
  have w0: "filter (\<lambda>x. tu_timestamp x
                \<ge> at_whaleCleanup (env_clock exampleEnv) - LOOKBACK_WINDOW_MS)
              (whaleTrades exampleEngine @ [whaleUpdate]) = [whaleUpdate]"
    by code_simp
  note t = disabled_reactor_is_inert
  have a: "handlePriceUpdate exampleEnv includedUpdate disabledEngine = (None, [], disabledEngine)"
    and b: "handleTradeUpdate exampleEnv whaleUpdate disabledEngine = (None, [], disabledEngine)"
    using t [of disabledEngine exampleEnv includedUpdate whaleUpdate] d by blast+
  have c: "map_option prices
        (priceHistory (reactor (snd (snd (handlePriceUpdate exampleEnv includedUpdate exampleEngine))))
           ''tok-no'')
      = Some [\<lparr>pp_price = 57999 / 100000, pp_timestamp = 999000\<rparr>]"
    using t [of exampleEngine exampleEnv includedUpdate whaleUpdate] en h0 sl id by simp
  have e: "whaleTrades (snd (snd (handleTradeUpdate exampleEnv whaleUpdate exampleEngine)))
      = [whaleUpdate]"
    using t [of exampleEngine exampleEnv includedUpdate whaleUpdate] en sz w0 by simp
  from a b c e show ?thesis by blast
qed

text \<open>
  Claim C9 as stated fails: a price notification and a whale-sized trade notification
  received while the reactor is disabled are recorded nowhere, whereas the same
  notifications received while it is enabled are.
\<close>

theorem disabled_reactor_drops_notifications:
  "\<not> enabled (reactor disabledEngine)
   \<and> priceHistory (reactor exampleEngine) ''tok-no'' = None
   \<and> priceHistory
        (reactor (snd (snd (handlePriceUpdate exampleEnv includedUpdate disabledEngine))))
        ''tok-no'' = None
   \<and> tu_size whaleUpdate \<ge> 1000
   \<and> whaleTrades (snd (snd (handleTradeUpdate exampleEnv whaleUpdate disabledEngine))) = []
   \<and> map_option prices (priceHistory
        (reactor (snd (snd (handlePriceUpdate exampleEnv includedUpdate exampleEngine))))
        ''tok-no'') = Some [\<lparr>pp_price = 57999 / 100000, pp_timestamp = 999000\<rparr>]
   \<and> whaleTrades (snd (snd (handleTradeUpdate exampleEnv whaleUpdate exampleEngine)))
      = [whaleUpdate]"
  by code_simp

end
